theory Spec2Isabelle
  imports Complex_Main
begin

section \<open>JavaScript values\<close>

text \<open>
  The mock server (\<^verbatim>\<open>mock-server\<close>, an Express application) and the k6 helper
  \<^verbatim>\<open>login\<close> work on dynamically typed JavaScript values. A value parsed from a JSON
  body, or built by a handler for \<^verbatim>\<open>res.json\<close>, is a \<open>jsval\<close>. Strings are byte
  strings (the UTF-8 encoding of the source text). A number is an IEEE double: \<open>JsNum x\<close>
  is the finite double whose exact value is \<open>x\<close>, \<open>JsInfinity True\<close> and
  \<open>JsInfinity False\<close> are \<open>+Infinity\<close> and \<open>-Infinity\<close>, and \<open>JsNaN\<close> is NaN.
\<close>

datatype jsval =
    JsUndefined
  | JsNull
  | JsBool bool
  | JsNaN
  | JsNum real
  | JsInfinity bool
  | JsStr string
  | JsArr "jsval list"
  | JsObj "(string \<times> jsval) list"

datatype js_error = TypeError | RangeError | InvalidStatus

text \<open>ToBoolean: the falsy values are undefined, null, false, NaN, 0 and the empty string.\<close>

fun truthy :: "jsval \<Rightarrow> bool" where
  "truthy JsUndefined = False"
| "truthy JsNull = False"
| "truthy (JsBool b) = b"
| "truthy JsNaN = False"
| "truthy (JsNum x) = (x \<noteq> 0)"
| "truthy (JsInfinity b) = True"
| "truthy (JsStr s) = (s \<noteq> [])"
| "truthy (JsArr xs) = True"
| "truthy (JsObj kvs) = True"

text \<open>\<^verbatim>\<open>a || b\<close> on values.\<close>

definition js_or :: "jsval \<Rightarrow> jsval \<Rightarrow> jsval" where
  "js_or a b = (if truthy a then a else b)"

text \<open>
  Property read \<^verbatim>\<open>v.k\<close> (also the read done by a destructuring pattern
  \<^verbatim>\<open>const { k } = v\<close>): a TypeError on undefined and null, the own property of an
  object (undefined when absent), and undefined on the other values for a key that their
  prototypes do not define (the handlers only read \<^verbatim>\<open>name\<close>, \<^verbatim>\<open>email\<close>,
  \<^verbatim>\<open>username\<close>, \<^verbatim>\<open>password\<close>, \<^verbatim>\<open>userId\<close>, \<^verbatim>\<open>data\<close> and \<^verbatim>\<open>token\<close>).
\<close>

fun get_prop :: "jsval \<Rightarrow> string \<Rightarrow> js_error + jsval" where
  "get_prop JsUndefined k = Inl TypeError"
| "get_prop JsNull k = Inl TypeError"
| "get_prop (JsObj kvs) k = Inr (case map_of kvs k of None \<Rightarrow> JsUndefined | Some v \<Rightarrow> v)"
| "get_prop v k = Inr JsUndefined"

section \<open>Numbers\<close>

text \<open>
  Arithmetic on doubles rounds: \<open>round_double x\<close> is the double nearest to the real \<open>x\<close>,
  ties going to the even significand (53 bits; the spacing of the doubles around \<open>x\<close> is
  \<open>2^(e - 52)\<close> where \<open>2^e \<le> |x| < 2^(e + 1)\<close>, and \<open>2^-1074\<close> below \<open>2^-1022\<close>), for
  \<open>x\<close> short of the overflow to an infinity.
\<close>

definition round_half_even :: "real \<Rightarrow> int" where
  "round_half_even y =
     (let f = \<lfloor>y\<rfloor>; d = y - of_int f
      in if d < 1/2 then f else if 1/2 < d then f + 1 else if even f then f else f + 1)"

definition round_double :: "real \<Rightarrow> real" where
  "round_double x =
     (if x = 0 then 0
      else (let e = max \<lfloor>log 2 \<bar>x\<bar>\<rfloor> (- 1022);
                ulp = 2 powr (of_int e - 52)
            in of_int (round_half_even (x / ulp)) * ulp))"

text \<open>
  The numbers that \<^verbatim>\<open>parseInt\<close> and \<^verbatim>\<open>Math.floor\<close> return have integer values or are
  infinite. \<open>to_jsint m\<close> is the Number for the mathematical integer \<open>m\<close>: the nearest
  double, or an infinity when the rounding reaches \<open>2^1024\<close> in magnitude.
\<close>

datatype jsint = Fin int | PosInf | NegInf

definition to_jsint :: "int \<Rightarrow> jsint" where
  "to_jsint m =
     (let d = round_double (of_int m)
      in if 2 ^ 1024 \<le> d then PosInf else if d \<le> - (2 ^ 1024) then NegInf else Fin \<lfloor>d\<rfloor>)"

text \<open>Such a number as a value stored in a response object.\<close>

fun num_js :: "jsint \<Rightarrow> jsval" where
  "num_js (Fin n) = JsNum (of_int n)"
| "num_js PosInf = JsInfinity True"
| "num_js NegInf = JsInfinity False"

text \<open>\<^verbatim>\<open>Math.min(a, b)\<close> on such numbers.\<close>

fun math_min :: "jsint \<Rightarrow> jsint \<Rightarrow> jsint" where
  "math_min NegInf b = NegInf"
| "math_min a NegInf = NegInf"
| "math_min PosInf b = b"
| "math_min a PosInf = a"
| "math_min (Fin a) (Fin b) = Fin (min a b)"

section \<open>parseInt and number formatting\<close>

text \<open>
  \<^verbatim>\<open>parseInt(string)\<close> without a radix: leading white space is skipped, an optional
  sign is read, a \<^verbatim>\<open>0x\<close>/\<^verbatim>\<open>0X\<close> prefix selects radix 16, and the longest prefix of
  digits of the radix is the value, rounded to a double; with no digit the result is NaN
  (\<open>None\<close>). (ECMAScript lets an implementation approximate a decimal value of more than
  20 digits; V8, the engine of Node.js, rounds the exact value, as is done here.)
  The white space of ECMAScript is TAB, LF, VT, FF, CR, SP and, in UTF-8,
  U+00A0, U+1680, U+2000..U+200A, U+2028, U+2029, U+202F, U+205F, U+3000 and U+FEFF;
  \<open>ws_len s\<close> is the number of bytes of the white space character that \<open>s\<close> starts
  with, 0 when it starts with none.
\<close>

definition ws_len :: "string \<Rightarrow> nat" where
  "ws_len s =
     (case (map of_char s :: nat list) of
        [] \<Rightarrow> 0
      | a # r \<Rightarrow>
          if a \<in> {9, 10, 11, 12, 13, 32} then 1
          else if a = 0xC2 \<and> take 1 r = [0xA0] then 2
          else if a = 0xE1 \<and> take 2 r = [0x9A, 0x80] then 3
          else if a = 0xE2 \<and> take 1 r = [0x80] \<and> 2 \<le> length r
                  \<and> (r ! 1 \<in> {0x80 .. 0x8A} \<or> r ! 1 \<in> {0xA8, 0xA9, 0xAF}) then 3
          else if a = 0xE2 \<and> take 2 r = [0x81, 0x9F] then 3
          else if a = 0xE3 \<and> take 2 r = [0x80, 0x80] then 3
          else if a = 0xEF \<and> take 2 r = [0xBB, 0xBF] then 3
          else 0)"

function skip_ws :: "string \<Rightarrow> string" where
  "skip_ws s = (if ws_len s = 0 then s else skip_ws (drop (ws_len s) s))"
  by pat_completeness auto
termination
proof (relation "measure length")
  show "wf (measure length)" by simp
next
  fix s :: string
  assume ws: "ws_len s \<noteq> 0"
  then have "s \<noteq> []" by (auto simp: ws_len_def)
  with ws show "(drop (ws_len s) s, s) \<in> measure length" by simp
qed

declare skip_ws.simps [simp del]

definition digit_val :: "char \<Rightarrow> nat option" where
  "digit_val c =
     (let n = (of_char c :: nat)
      in if 48 \<le> n \<and> n \<le> 57 then Some (n - 48)
         else if 97 \<le> n \<and> n \<le> 122 then Some (n - 87)
         else if 65 \<le> n \<and> n \<le> 90 then Some (n - 55)
         else None)"

definition is_digit :: "nat \<Rightarrow> char \<Rightarrow> bool" where
  "is_digit radix c = (case digit_val c of None \<Rightarrow> False | Some d \<Rightarrow> d < radix)"

definition digits_value :: "nat \<Rightarrow> string \<Rightarrow> nat" where
  "digits_value radix z = foldl (\<lambda>acc c. acc * radix + (case digit_val c of None \<Rightarrow> 0 | Some d \<Rightarrow> d)) 0 z"

definition parseInt_js :: "string \<Rightarrow> jsint option" where
  "parseInt_js str =
     (let s = skip_ws str;
          sign = (if take 1 s = ''-'' then - 1 else 1 :: int);
          s1 = (if take 1 s = ''-'' \<or> take 1 s = ''+'' then drop 1 s else s);
          hex = (take 2 s1 = ''0x'' \<or> take 2 s1 = ''0X'');
          radix = (if hex then 16 else 10 :: nat);
          s2 = (if hex then drop 2 s1 else s1);
          z = takeWhile (is_digit radix) s2
      in if z = [] then None else Some (to_jsint (sign * int (digits_value radix z))))"

text \<open>\<^verbatim>\<open>parseInt(x) || d\<close>: NaN and 0 are falsy, so both give the default \<open>d\<close>.\<close>

definition or_num :: "jsint option \<Rightarrow> int \<Rightarrow> jsint" where
  "or_num x d = (case x of None \<Rightarrow> Fin d | Some n \<Rightarrow> if n = Fin 0 then Fin d else n)"

text \<open>The result of \<^verbatim>\<open>parseInt\<close> as a value stored in a response object.\<close>

definition num_val :: "jsint option \<Rightarrow> jsval" where
  "num_val x = (case x of None \<Rightarrow> JsNaN | Some n \<Rightarrow> num_js n)"

text \<open>
  The decimal digits of an integer, with a leading minus sign for a negative one: what a
  template literal \<^verbatim>\<open>`${n}`\<close> prints for an integer \<open>n\<close> of magnitude up to \<open>2^53\<close>.
\<close>

fun show_nat :: "nat \<Rightarrow> string" where
  "show_nat n =
     (if n < 10 then [char_of (48 + n)]
      else show_nat (n div 10) @ [char_of (48 + n mod 10)])"

declare show_nat.simps [simp del]

definition show_int :: "int \<Rightarrow> string" where
  "show_int i = (if i < 0 then ''-'' @ show_nat (nat (- i)) else show_nat (nat i))"

section \<open>The mock server\<close>

subsection \<open>String constants of the source\<close>

text \<open>
  The Japanese texts of the source, as UTF-8 bytes; each definition carries an English
  gloss.
\<close>

definition name_tanaka :: string where
  \<comment> \<open>Tanaka Taro\<close>
  "name_tanaka =
     [CHR 0xE7, CHR 0x94, CHR 0xB0, CHR 0xE4, CHR 0xB8, CHR 0xAD, CHR 0xE5, CHR 0xA4,
      CHR 0xAA, CHR 0xE9, CHR 0x83, CHR 0x8E]"

definition name_sato :: string where
  \<comment> \<open>Sato Hanako\<close>
  "name_sato =
     [CHR 0xE4, CHR 0xBD, CHR 0x90, CHR 0xE8, CHR 0x97, CHR 0xA4, CHR 0xE8, CHR 0x8A,
      CHR 0xB1, CHR 0xE5, CHR 0xAD, CHR 0x90]"

definition name_suzuki :: string where
  \<comment> \<open>Suzuki Ichiro\<close>
  "name_suzuki =
     [CHR 0xE9, CHR 0x88, CHR 0xB4, CHR 0xE6, CHR 0x9C, CHR 0xA8, CHR 0xE4, CHR 0xB8,
      CHR 0x80, CHR 0xE9, CHR 0x83, CHR 0x8E]"

definition txt_user :: string where
  \<comment> \<open>the word ''user''\<close>
  "txt_user =
     [CHR 0xE3, CHR 0x83, CHR 0xA6, CHR 0xE3, CHR 0x83, CHR 0xBC, CHR 0xE3, CHR 0x82,
      CHR 0xB6, CHR 0xE3, CHR 0x83, CHR 0xBC]"

definition txt_required :: string where
  \<comment> \<open>''... are required''\<close>
  "txt_required =
     [CHR 0x20, CHR 0xE3, CHR 0x81, CHR 0xAF, CHR 0xE5, CHR 0xBF, CHR 0x85, CHR 0xE9,
      CHR 0xA0, CHR 0x88, CHR 0xE3, CHR 0x81, CHR 0xA7, CHR 0xE3, CHR 0x81, CHR 0x99]"

definition txt_to :: string where
  \<comment> \<open>''and''\<close>
  "txt_to =
     [CHR 0x20, CHR 0xE3, CHR 0x81, CHR 0xA8, CHR 0x20]"

definition txt_user_id :: string where
  \<comment> \<open>''user ID ''\<close>
  "txt_user_id =
     [CHR 0xE3, CHR 0x83, CHR 0xA6, CHR 0xE3, CHR 0x83, CHR 0xBC, CHR 0xE3, CHR 0x82,
      CHR 0xB6, CHR 0xE3, CHR 0x83, CHR 0xBC, CHR 0x49, CHR 0x44, CHR 0x20]"

definition txt_deleted :: string where
  \<comment> \<open>''... was deleted''\<close>
  "txt_deleted =
     [CHR 0x20, CHR 0xE3, CHR 0x82, CHR 0x92, CHR 0xE5, CHR 0x89, CHR 0x8A, CHR 0xE9,
      CHR 0x99, CHR 0xA4, CHR 0xE3, CHR 0x81, CHR 0x97, CHR 0xE3, CHR 0x81, CHR 0xBE,
      CHR 0xE3, CHR 0x81, CHR 0x97, CHR 0xE3, CHR 0x81, CHR 0x9F]"

definition msg_auth_failed :: string where
  \<comment> \<open>''authentication failed''\<close>
  "msg_auth_failed =
     [CHR 0xE8, CHR 0xAA, CHR 0x8D, CHR 0xE8, CHR 0xA8, CHR 0xBC, CHR 0xE3, CHR 0x81,
      CHR 0xAB, CHR 0xE5, CHR 0xA4, CHR 0xB1, CHR 0xE6, CHR 0x95, CHR 0x97, CHR 0xE3,
      CHR 0x81, CHR 0x97, CHR 0xE3, CHR 0x81, CHR 0xBE, CHR 0xE3, CHR 0x81, CHR 0x97,
      CHR 0xE3, CHR 0x81, CHR 0x9F]"

definition msg_token_required :: string where
  \<comment> \<open>''an authentication token is required''\<close>
  "msg_token_required =
     [CHR 0xE8, CHR 0xAA, CHR 0x8D, CHR 0xE8, CHR 0xA8, CHR 0xBC, CHR 0xE3, CHR 0x83,
      CHR 0x88, CHR 0xE3, CHR 0x83, CHR 0xBC, CHR 0xE3, CHR 0x82, CHR 0xAF, CHR 0xE3,
      CHR 0x83, CHR 0xB3, CHR 0xE3, CHR 0x81, CHR 0x8C, CHR 0xE5, CHR 0xBF, CHR 0x85,
      CHR 0xE8, CHR 0xA6, CHR 0x81, CHR 0xE3, CHR 0x81, CHR 0xA7, CHR 0xE3, CHR 0x81,
      CHR 0x99]"

definition msg_token_invalid :: string where
  \<comment> \<open>''the token is invalid''\<close>
  "msg_token_invalid =
     [CHR 0xE3, CHR 0x83, CHR 0x88, CHR 0xE3, CHR 0x83, CHR 0xBC, CHR 0xE3, CHR 0x82,
      CHR 0xAF, CHR 0xE3, CHR 0x83, CHR 0xB3, CHR 0xE3, CHR 0x81, CHR 0x8C, CHR 0xE7,
      CHR 0x84, CHR 0xA1, CHR 0xE5, CHR 0x8A, CHR 0xB9, CHR 0xE3, CHR 0x81, CHR 0xA7,
      CHR 0xE3, CHR 0x81, CHR 0x99]"

definition msg_random_error :: string where
  \<comment> \<open>''a server error raised at random''\<close>
  "msg_random_error =
     [CHR 0xE3, CHR 0x83, CHR 0xA9, CHR 0xE3, CHR 0x83, CHR 0xB3, CHR 0xE3, CHR 0x83,
      CHR 0x80, CHR 0xE3, CHR 0x83, CHR 0xA0, CHR 0xE3, CHR 0x81, CHR 0xAB, CHR 0xE7,
      CHR 0x99, CHR 0xBA, CHR 0xE7, CHR 0x94, CHR 0x9F, CHR 0xE3, CHR 0x81, CHR 0x97,
      CHR 0xE3, CHR 0x81, CHR 0x9F, CHR 0xE3, CHR 0x82, CHR 0xB5, CHR 0xE3, CHR 0x83,
      CHR 0xBC, CHR 0xE3, CHR 0x83, CHR 0x90, CHR 0xE3, CHR 0x83, CHR 0xBC, CHR 0xE3,
      CHR 0x82, CHR 0xA8, CHR 0xE3, CHR 0x83, CHR 0xA9, CHR 0xE3, CHR 0x83, CHR 0xBC]"

definition msg_ok :: string where
  \<comment> \<open>''the response was returned normally''\<close>
  "msg_ok =
     [CHR 0xE6, CHR 0xAD, CHR 0xA3, CHR 0xE5, CHR 0xB8, CHR 0xB8, CHR 0xE3, CHR 0x81,
      CHR 0xAB, CHR 0xE3, CHR 0x83, CHR 0xAC, CHR 0xE3, CHR 0x82, CHR 0xB9, CHR 0xE3,
      CHR 0x83, CHR 0x9D, CHR 0xE3, CHR 0x83, CHR 0xB3, CHR 0xE3, CHR 0x82, CHR 0xB9,
      CHR 0xE3, CHR 0x82, CHR 0x92, CHR 0xE8, CHR 0xBF, CHR 0x94, CHR 0xE3, CHR 0x81,
      CHR 0x97, CHR 0xE3, CHR 0x81, CHR 0xBE, CHR 0xE3, CHR 0x81, CHR 0x97, CHR 0xE3,
      CHR 0x81, CHR 0x9F]"

definition txt_item :: string where
  \<comment> \<open>the word ''item''\<close>
  "txt_item =
     [CHR 0xE3, CHR 0x82, CHR 0xA2, CHR 0xE3, CHR 0x82, CHR 0xA4, CHR 0xE3, CHR 0x83,
      CHR 0x86, CHR 0xE3, CHR 0x83, CHR 0xA0]"

definition txt_dummy :: string where
  \<comment> \<open>''this is dummy data for testing a large payload.''\<close>
  "txt_dummy =
     [CHR 0xE3, CHR 0x81, CHR 0x93, CHR 0xE3, CHR 0x82, CHR 0x8C, CHR 0xE3, CHR 0x81,
      CHR 0xAF, CHR 0xE5, CHR 0xA4, CHR 0xA7, CHR 0xE3, CHR 0x81, CHR 0x8D, CHR 0xE3,
      CHR 0x81, CHR 0xAA, CHR 0xE3, CHR 0x83, CHR 0x9A, CHR 0xE3, CHR 0x82, CHR 0xA4,
      CHR 0xE3, CHR 0x83, CHR 0xAD, CHR 0xE3, CHR 0x83, CHR 0xBC, CHR 0xE3, CHR 0x83,
      CHR 0x89, CHR 0xE3, CHR 0x82, CHR 0x92, CHR 0xE3, CHR 0x83, CHR 0x86, CHR 0xE3,
      CHR 0x82, CHR 0xB9, CHR 0xE3, CHR 0x83, CHR 0x88, CHR 0xE3, CHR 0x81, CHR 0x99,
      CHR 0xE3, CHR 0x82, CHR 0x8B, CHR 0xE3, CHR 0x81, CHR 0x9F, CHR 0xE3, CHR 0x82,
      CHR 0x81, CHR 0xE3, CHR 0x81, CHR 0xAE, CHR 0xE3, CHR 0x83, CHR 0x80, CHR 0xE3,
      CHR 0x83, CHR 0x9F, CHR 0xE3, CHR 0x83, CHR 0xBC, CHR 0xE3, CHR 0x83, CHR 0x87,
      CHR 0xE3, CHR 0x83, CHR 0xBC, CHR 0xE3, CHR 0x82, CHR 0xBF, CHR 0xE3, CHR 0x81,
      CHR 0xA7, CHR 0xE3, CHR 0x81, CHR 0x99, CHR 0xE3, CHR 0x80, CHR 0x82]"

definition msg_not_found :: string where
  \<comment> \<open>''endpoint not found''\<close>
  "msg_not_found =
     [CHR 0xE3, CHR 0x82, CHR 0xA8, CHR 0xE3, CHR 0x83, CHR 0xB3, CHR 0xE3, CHR 0x83,
      CHR 0x89, CHR 0xE3, CHR 0x83, CHR 0x9D, CHR 0xE3, CHR 0x82, CHR 0xA4, CHR 0xE3,
      CHR 0x83, CHR 0xB3, CHR 0xE3, CHR 0x83, CHR 0x88, CHR 0xE3, CHR 0x81, CHR 0x8C,
      CHR 0xE8, CHR 0xA6, CHR 0x8B, CHR 0xE3, CHR 0x81, CHR 0xA4, CHR 0xE3, CHR 0x81,
      CHR 0x8B, CHR 0xE3, CHR 0x82, CHR 0x8A, CHR 0xE3, CHR 0x81, CHR 0xBE, CHR 0xE3,
      CHR 0x81, CHR 0x9B, CHR 0xE3, CHR 0x82, CHR 0x93]"

definition msg_server_error :: string where
  \<comment> \<open>''a server error occurred''\<close>
  "msg_server_error =
     [CHR 0xE3, CHR 0x82, CHR 0xB5, CHR 0xE3, CHR 0x83, CHR 0xBC, CHR 0xE3, CHR 0x83,
      CHR 0x90, CHR 0xE3, CHR 0x83, CHR 0xBC, CHR 0xE3, CHR 0x82, CHR 0xA8, CHR 0xE3,
      CHR 0x83, CHR 0xA9, CHR 0xE3, CHR 0x83, CHR 0xBC, CHR 0xE3, CHR 0x81, CHR 0x8C,
      CHR 0xE7, CHR 0x99, CHR 0xBA, CHR 0xE7, CHR 0x94, CHR 0x9F, CHR 0xE3, CHR 0x81,
      CHR 0x97, CHR 0xE3, CHR 0x81, CHR 0xBE, CHR 0xE3, CHR 0x81, CHR 0x97, CHR 0xE3,
      CHR 0x81, CHR 0x9F]"

definition JWT_SECRET :: string where
  "JWT_SECRET = ''k6-test-secret-key''"

subsection \<open>Environment, requests and responses\<close>

text \<open>
  What a handler reads from outside is an explicit input: the draw of
  \<^verbatim>\<open>Math.random()\<close>, the clock as \<^verbatim>\<open>new Date().toISOString()\<close> prints it, and the
  two functions of the \<^verbatim>\<open>jsonwebtoken\<close> package, which is not part of the repository:
  \<open>env_sign payload secret expiresIn\<close> is \<^verbatim>\<open>jwt.sign(payload, secret, { expiresIn })\<close>
  and \<open>env_verify token secret\<close> is \<^verbatim>\<open>jwt.verify(token, secret)\<close>, with \<open>None\<close> when it
  throws. \<open>env_to_string n\<close> is the string that the runtime prints for the double of
  value \<open>n\<close> when \<open>n\<close> is an integer beyond \<open>2^53\<close> in magnitude (the shortest digits that
  read back as the same double, in exponent form from \<open>10^21\<close> on).
\<close>

record env =
  env_random :: real
  env_now :: string
  env_sign :: "jsval \<Rightarrow> string \<Rightarrow> string \<Rightarrow> string"
  env_verify :: "string \<Rightarrow> string \<Rightarrow> jsval option"
  env_to_string :: "int \<Rightarrow> string"

text \<open>Number to string, as a template literal \<^verbatim>\<open>`${n}`\<close> does it for the result of \<^verbatim>\<open>parseInt\<close>.\<close>

definition number_to_string :: "env \<Rightarrow> jsint option \<Rightarrow> string" where
  "number_to_string E x =
     (case x of
        None \<Rightarrow> ''NaN''
      | Some PosInf \<Rightarrow> ''Infinity''
      | Some NegInf \<Rightarrow> ''-Infinity''
      | Some (Fin n) \<Rightarrow> if \<bar>n\<bar> \<le> 2 ^ 53 then show_int n else env_to_string E n)"

text \<open>
  A response is what the handler hands to Express: the status code given to
  \<^verbatim>\<open>res.status\<close> (200 when the handler sets none), the object given to \<^verbatim>\<open>res.json\<close>,
  and the delay of the timer the handler awaits before it responds (\<open>None\<close> when it
  awaits none).
\<close>

record response =
  res_status :: int
  res_wait :: "jsint option"
  res_body :: jsval

definition status_json :: "int \<Rightarrow> jsval \<Rightarrow> response" where
  "status_json code b = \<lparr>res_status = code, res_wait = None, res_body = b\<rparr>"

definition json :: "jsval \<Rightarrow> response" where
  "json b = status_json 200 b"

text \<open>\<^verbatim>\<open>Math.floor(Math.random() * n)\<close>: the product is rounded to a double, then floored.\<close>

definition random_below :: "env \<Rightarrow> int \<Rightarrow> int" where
  "random_below E n = \<lfloor>round_double (env_random E * of_int n)\<rfloor>"

text \<open>
  A query parameter as the query parser of Express leaves it in \<^verbatim>\<open>req.query\<close>: a
  string, an array or an object; \<open>q_to_string\<close> is the conversion to a string that
  \<^verbatim>\<open>parseInt\<close> applies to its argument.
\<close>

datatype qval = QStr string | QArr "qval list" | QObj "(string \<times> qval) list"

fun join_comma :: "string list \<Rightarrow> string" where
  "join_comma [] = []"
| "join_comma [x] = x"
| "join_comma (x # y # r) = x @ '','' @ join_comma (y # r)"

fun q_to_string :: "qval \<Rightarrow> string" where
  "q_to_string (QStr s) = s"
| "q_to_string (QArr xs) = join_comma (map q_to_string xs)"
| "q_to_string (QObj kvs) = ''[object Object]''"

text \<open>
  A request, after Express has selected the route: the route's parameters, the parsed
  JSON body (\<^verbatim>\<open>req.body\<close>), the \<^verbatim>\<open>Authorization\<close> header or the \<^verbatim>\<open>size\<close> query
  parameter. \<open>Unmatched\<close> is a request that no route matches.
\<close>

datatype request =
    GetHealth
  | GetUsers
  | GetUser string
  | PostUsers jsval
  | PutUser string jsval
  | DeleteUser string
  | PostLogin jsval
  | GetMe "string option"
  | GetDelay string
  | GetRandomDelay
  | GetStatus string
  | GetRandomError
  | GetLargePayload "qval option"
  | PostUpload
  | Unmatched

subsection \<open>Route handlers\<close>

text \<open>\<^verbatim>\<open>app.get('/health')\<close>\<close>

definition get_health :: "env \<Rightarrow> response" where
  "get_health E = json (JsObj [(''status'', JsStr ''ok''), (''timestamp'', JsStr (env_now E))])"

text \<open>\<^verbatim>\<open>app.get('/api/users')\<close>\<close>

definition users :: "jsval list" where
  "users =
     [JsObj [(''id'', JsNum 1), (''name'', JsStr name_tanaka), (''email'', JsStr ''tanaka@example.com'')],
      JsObj [(''id'', JsNum 2), (''name'', JsStr name_sato), (''email'', JsStr ''sato@example.com'')],
      JsObj [(''id'', JsNum 3), (''name'', JsStr name_suzuki), (''email'', JsStr ''suzuki@example.com'')]]"

definition get_users :: response where
  "get_users = json (JsObj [(''success'', JsBool True), (''data'', JsArr users)])"

text \<open>\<^verbatim>\<open>app.get('/api/users/:id')\<close>\<close>

definition get_user :: "env \<Rightarrow> string \<Rightarrow> response" where
  "get_user E id' =
     (let userId = parseInt_js id';
          user = JsObj
            [(''id'', num_val userId),
             (''name'', JsStr (txt_user @ number_to_string E userId)),
             (''email'', JsStr (''user'' @ number_to_string E userId @ ''@example.com'')),
             (''createdAt'', JsStr (env_now E))]
      in json (JsObj [(''success'', JsBool True), (''data'', user)]))"

text \<open>\<^verbatim>\<open>app.post('/api/users')\<close>\<close>

definition post_users :: "env \<Rightarrow> jsval \<Rightarrow> js_error + response" where
  "post_users E body =
     (case get_prop body ''name'' of Inl e \<Rightarrow> Inl e | Inr name \<Rightarrow>
     (case get_prop body ''email'' of Inl e \<Rightarrow> Inl e | Inr email \<Rightarrow>
        if \<not> truthy name \<or> \<not> truthy email then
          Inr (status_json 400 (JsObj
            [(''success'', JsBool False),
             (''error'', JsStr (''name'' @ txt_to @ ''email'' @ txt_required))]))
        else
          (let newUser = JsObj
                 [(''id'', JsNum (of_int (random_below E 10000))),
                  (''name'', name),
                  (''email'', email),
                  (''createdAt'', JsStr (env_now E))]
           in Inr (status_json 201 (JsObj [(''success'', JsBool True), (''data'', newUser)])))))"

text \<open>\<^verbatim>\<open>app.put('/api/users/:id')\<close>\<close>

definition put_user :: "env \<Rightarrow> string \<Rightarrow> jsval \<Rightarrow> js_error + response" where
  "put_user E id' body =
     (let userId = parseInt_js id'
      in case get_prop body ''name'' of Inl e \<Rightarrow> Inl e | Inr name \<Rightarrow>
        (case get_prop body ''email'' of Inl e \<Rightarrow> Inl e | Inr email \<Rightarrow>
           (let updatedUser = JsObj
                  [(''id'', num_val userId),
                   (''name'', js_or name (JsStr (txt_user @ number_to_string E userId))),
                   (''email'', js_or email (JsStr (''user'' @ number_to_string E userId @ ''@example.com''))),
                   (''updatedAt'', JsStr (env_now E))]
            in Inr (json (JsObj [(''success'', JsBool True), (''data'', updatedUser)])))))"

text \<open>\<^verbatim>\<open>app.delete('/api/users/:id')\<close>\<close>

definition delete_user :: "env \<Rightarrow> string \<Rightarrow> response" where
  "delete_user E id' =
     (let userId = parseInt_js id'
      in json (JsObj
           [(''success'', JsBool True),
            (''message'', JsStr (txt_user_id @ number_to_string E userId @ txt_deleted))]))"

text \<open>\<^verbatim>\<open>app.post('/api/auth/login')\<close>\<close>

definition login_payload :: "env \<Rightarrow> jsval \<Rightarrow> jsval" where
  \<comment> \<open>the claims that the handler signs: \<^verbatim>\<open>{ userId: Math.floor(Math.random() * 1000), username }\<close>\<close>
  "login_payload E username =
     JsObj [(''userId'', JsNum (of_int (random_below E 1000))), (''username'', username)]"

definition post_login :: "env \<Rightarrow> jsval \<Rightarrow> js_error + response" where
  "post_login E body =
     (case get_prop body ''username'' of Inl e \<Rightarrow> Inl e | Inr username \<Rightarrow>
     (case get_prop body ''password'' of Inl e \<Rightarrow> Inl e | Inr password \<Rightarrow>
        if \<not> truthy username \<or> \<not> truthy password then
          Inr (status_json 400 (JsObj
            [(''success'', JsBool False),
             (''error'', JsStr (''username'' @ txt_to @ ''password'' @ txt_required))]))
        else if password = JsStr ''wrong'' then
          Inr (status_json 401 (JsObj
            [(''success'', JsBool False), (''error'', JsStr msg_auth_failed)]))
        else
          (let token = env_sign E (login_payload E username) JWT_SECRET ''1h''
           in Inr (json (JsObj
                [(''success'', JsBool True),
                 (''data'', JsObj [(''token'', JsStr token), (''expiresIn'', JsNum 3600)])])))))"

text \<open>
  \<^verbatim>\<open>app.get('/api/auth/me')\<close>. The header is \<open>None\<close> when the request has none. The
  two property reads and \<^verbatim>\<open>res.json\<close> are inside the \<^verbatim>\<open>try\<close> block, so an error
  of theirs is answered like a failed verification.
\<close>

definition starts_with :: "string \<Rightarrow> string \<Rightarrow> bool" where
  "starts_with s p = (take (length p) s = p)"

definition get_me :: "env \<Rightarrow> string option \<Rightarrow> response" where
  "get_me E authorization =
     (case authorization of
        None \<Rightarrow> status_json 401 (JsObj
          [(''success'', JsBool False), (''error'', JsStr msg_token_required)])
      | Some authHeader \<Rightarrow>
          if authHeader = [] \<or> \<not> starts_with authHeader ''Bearer '' then
            status_json 401 (JsObj
              [(''success'', JsBool False), (''error'', JsStr msg_token_required)])
          else
            (let token = drop 7 authHeader;
                 invalid = status_json 401 (JsObj
                   [(''success'', JsBool False), (''error'', JsStr msg_token_invalid)])
             in case env_verify E token JWT_SECRET of
                  None \<Rightarrow> invalid
                | Some decoded \<Rightarrow>
                    (case get_prop decoded ''userId'' of Inl e \<Rightarrow> invalid | Inr userId \<Rightarrow>
                    (case get_prop decoded ''username'' of Inl e \<Rightarrow> invalid | Inr username \<Rightarrow>
                       json (JsObj
                         [(''success'', JsBool True),
                          (''data'', JsObj [(''userId'', userId), (''username'', username)])])))))"

text \<open>\<^verbatim>\<open>app.get('/api/delay/:ms')\<close>\<close>

definition get_delay :: "env \<Rightarrow> string \<Rightarrow> response" where
  "get_delay E ms =
     (let delayMs = or_num (parseInt_js ms) 0;
          maxDelay = Fin 10000;
          actualDelay = math_min delayMs maxDelay
      in (json (JsObj
            [(''success'', JsBool True),
             (''data'', JsObj
                [(''requestedDelay'', num_js delayMs),
                 (''actualDelay'', num_js actualDelay),
                 (''timestamp'', JsStr (env_now E))])]))
         \<lparr>res_wait := Some actualDelay\<rparr>)"

text \<open>\<^verbatim>\<open>app.get('/api/random-delay')\<close>\<close>

definition get_random_delay :: "env \<Rightarrow> response" where
  "get_random_delay E =
     (let delay = random_below E 1900 + 100
      in (json (JsObj
            [(''success'', JsBool True),
             (''data'', JsObj [(''delay'', JsNum (of_int delay)), (''timestamp'', JsStr (env_now E))])]))
         \<lparr>res_wait := Some (Fin delay)\<rparr>)"

text \<open>
  \<^verbatim>\<open>app.get('/api/status/:code')\<close>. The status code of a response is an integer. An
  infinite \<^verbatim>\<open>statusCode\<close> (from a parameter of more than 308 digits) is none:
  \<^verbatim>\<open>res.status\<close> of Express 5 refuses it, and under Express 4 Node refuses it when
  \<^verbatim>\<open>res.json\<close> writes the response; either way an error is thrown inside the handler.
\<close>

definition messages :: "(int \<times> string) list" where
  "messages =
     [(200, ''OK''),
      (400, ''Bad Request''),
      (401, ''Unauthorized''),
      (403, ''Forbidden''),
      (404, ''Not Found''),
      (500, ''Internal Server Error''),
      (502, ''Bad Gateway''),
      (503, ''Service Unavailable'')]"

definition get_status :: "string \<Rightarrow> js_error + response" where
  "get_status code =
     (case or_num (parseInt_js code) 200 of
        Fin statusCode \<Rightarrow>
          Inr (status_json statusCode (JsObj
            [(''success'', JsBool (statusCode < 400)),
             (''statusCode'', JsNum (of_int statusCode)),
             (''message'', JsStr (case map_of messages statusCode of
                                    None \<Rightarrow> ''Unknown Status'' | Some m \<Rightarrow> m))]))
      | PosInf \<Rightarrow> Inl InvalidStatus
      | NegInf \<Rightarrow> Inl InvalidStatus)"

text \<open>\<^verbatim>\<open>app.get('/api/random-error')\<close>\<close>

definition get_random_error :: "env \<Rightarrow> response" where
  "get_random_error E =
     (if env_random E < 0.2 then
        status_json 500 (JsObj [(''success'', JsBool False), (''error'', JsStr msg_random_error)])
      else
        json (JsObj [(''success'', JsBool True), (''data'', JsObj [(''message'', JsStr msg_ok)])]))"

text \<open>
  \<^verbatim>\<open>app.get('/api/large-payload')\<close>. \<^verbatim>\<open>Array.from({ length: size }, f)\<close> builds
  \<open>f(undefined, 0), ..., f(undefined, size - 1)\<close>; a negative length counts as 0, and a
  length of \<open>2^32\<close> or more (\<open>+Infinity\<close> too) makes the construction of the array throw
  a RangeError.
  An absent parameter is \<^verbatim>\<open>undefined\<close>, which \<^verbatim>\<open>parseInt\<close> reads as the string
  \<^verbatim>\<open>undefined\<close>.
\<close>

fun array_from :: "jsint \<Rightarrow> (nat \<Rightarrow> 'a) \<Rightarrow> js_error + 'a list" where
  "array_from (Fin len) f = (if len \<ge> 2 ^ 32 then Inl RangeError else Inr (map f [0 ..< nat len]))"
| "array_from PosInf f = Inl RangeError"
| "array_from NegInf f = Inr []"

definition get_large_payload :: "env \<Rightarrow> qval option \<Rightarrow> js_error + response" where
  "get_large_payload E q =
     (let size = or_num (parseInt_js (case q of None \<Rightarrow> ''undefined'' | Some v \<Rightarrow> q_to_string v)) 100
      in case array_from size (\<lambda>i. JsObj
                [(''id'', JsNum (of_nat (i + 1))),
                 (''name'', JsStr (txt_item @ show_nat (i + 1))),
                 (''description'', JsStr (concat (replicate 5 txt_dummy))),
                 (''timestamp'', JsStr (env_now E))]) of
           Inl e \<Rightarrow> Inl e
         | Inr items \<Rightarrow> Inr (json (JsObj
             [(''success'', JsBool True),
              (''count'', JsNum (of_nat (length items))),
              (''data'', JsArr items)])))"

text \<open>\<^verbatim>\<open>app.post('/api/upload')\<close>\<close>

definition post_upload :: "env \<Rightarrow> response" where
  "post_upload E =
     json (JsObj
       [(''success'', JsBool True),
        (''data'', JsObj
           [(''filename'', JsStr ''uploaded-file.txt''),
            (''size'', JsNum (of_int (random_below E 1000000))),
            (''uploadedAt'', JsStr (env_now E))])])"

text \<open>The 404 handler and the error handler, the two last \<^verbatim>\<open>app.use\<close>.\<close>

definition not_found :: response where
  "not_found = status_json 404 (JsObj [(''success'', JsBool False), (''error'', JsStr msg_not_found)])"

definition error_handler :: "js_error \<Rightarrow> response" where
  "error_handler err =
     status_json 500 (JsObj [(''success'', JsBool False), (''error'', JsStr msg_server_error)])"

text \<open>
  The application: the selected handler runs, and an error thrown by a handler is passed
  to the error handler.
\<close>

definition catch :: "js_error + response \<Rightarrow> response" where
  "catch r = (case r of Inl err \<Rightarrow> error_handler err | Inr res \<Rightarrow> res)"

fun app :: "env \<Rightarrow> request \<Rightarrow> response" where
  "app E GetHealth = get_health E"
| "app E GetUsers = get_users"
| "app E (GetUser id') = get_user E id'"
| "app E (PostUsers body) = catch (post_users E body)"
| "app E (PutUser id' body) = catch (put_user E id' body)"
| "app E (DeleteUser id') = delete_user E id'"
| "app E (PostLogin body) = catch (post_login E body)"
| "app E (GetMe authorization) = get_me E authorization"
| "app E (GetDelay ms) = get_delay E ms"
| "app E GetRandomDelay = get_random_delay E"
| "app E (GetStatus code) = catch (get_status code)"
| "app E GetRandomError = get_random_error E"
| "app E (GetLargePayload q) = catch (get_large_payload E q)"
| "app E PostUpload = post_upload E"
| "app E Unmatched = not_found"

section \<open>The k6 authentication helper\<close>

text \<open>
  \<^verbatim>\<open>login\<close> of the authentication helper calls three functions of its runtime, which
  are explicit inputs here: \<^verbatim>\<open>http.post(url, body, { headers })\<close> of k6, which returns
  the response (its body is a string, or null when k6 keeps none),
  \<^verbatim>\<open>JSON.stringify\<close>, and \<^verbatim>\<open>JSON.parse\<close>, with \<open>None\<close> when it throws a SyntaxError.
\<close>

record http_response =
  http_status :: int
  http_body :: "string option"

record k6 =
  http_post :: "string \<Rightarrow> string \<Rightarrow> (string \<times> string) list \<Rightarrow> http_response"
  JSON_stringify :: "jsval \<Rightarrow> string"
  JSON_parse :: "string \<Rightarrow> jsval option"

text \<open>\<^verbatim>\<open>body.data?.token\<close>\<close>

definition data_token :: "jsval \<Rightarrow> js_error + jsval" where
  "data_token body =
     (case get_prop body ''data'' of
        Inl e \<Rightarrow> Inl e
      | Inr d \<Rightarrow> if d = JsUndefined \<or> d = JsNull then Inr JsUndefined else get_prop d ''token'')"

text \<open>
  \<^verbatim>\<open>login(baseUrl, username, password)\<close>. Both \<^verbatim>\<open>JSON.parse\<close> and the property reads
  are inside the \<^verbatim>\<open>try\<close> block, whose handler returns null.
\<close>

definition login :: "k6 \<Rightarrow> string \<Rightarrow> string \<Rightarrow> string \<Rightarrow> jsval" where
  "login K baseUrl username password =
     (let payload = JSON_stringify K
            (JsObj [(''username'', JsStr username), (''password'', JsStr password)]);
          response = http_post K (baseUrl @ ''/api/auth/login'') payload
            [(''Content-Type'', ''application/json'')]
      in if http_status response = 200 then
           (case JSON_parse K (case http_body response of None \<Rightarrow> ''null'' | Some b \<Rightarrow> b) of
              None \<Rightarrow> JsNull
            | Some body \<Rightarrow>
                (case data_token body of Inl e \<Rightarrow> JsNull | Inr token \<Rightarrow> js_or token JsNull))
         else JsNull)"

text \<open>\<^verbatim>\<open>getAuthHeaders(token)\<close>\<close>

definition getAuthHeaders :: "string \<Rightarrow> (string \<times> string) list" where
  "getAuthHeaders token =
     [(''Authorization'', ''Bearer '' @ token), (''Content-Type'', ''application/json'')]"

section \<open>Notions used in the statements\<close>

text \<open>
  The own property \<open>k\<close> of an object, and the value at the end of a path of own
  properties: \<open>at_path b [''data'', ''id'']\<close> is \<^verbatim>\<open>b.data.id\<close> when both properties
  exist.
\<close>

fun own_prop :: "jsval \<Rightarrow> string \<Rightarrow> jsval option" where
  "own_prop (JsObj kvs) k = map_of kvs k"
| "own_prop v k = None"

fun at_path :: "jsval \<Rightarrow> string list \<Rightarrow> jsval option" where
  "at_path v [] = Some v"
| "at_path v (k # ks) = (case own_prop v k of None \<Rightarrow> None | Some w \<Rightarrow> at_path w ks)"

text \<open>The field \<open>k\<close> of a request body, undefined when the body has none.\<close>

definition field :: "jsval \<Rightarrow> string \<Rightarrow> jsval" where
  "field b k = (case own_prop b k of None \<Rightarrow> JsUndefined | Some v \<Rightarrow> v)"

text \<open>
  A field is missing, in the words of the specification, when the body has no such
  property, or the property is null or the empty string.
\<close>

definition missing :: "jsval \<Rightarrow> bool" where
  "missing v = (v = JsUndefined \<or> v = JsNull \<or> v = JsStr [])"

text \<open>A string of decimal digits only.\<close>

definition all_dec :: "string \<Rightarrow> bool" where
  "all_dec s = (\<forall>c \<in> set s. 48 \<le> (of_char c :: nat) \<and> (of_char c :: nat) \<le> 57)"

text \<open>
  The value of the path parameter of \<^verbatim>\<open>/api/delay/:ms\<close> in the words of the
  specification: the number parsed from it, and 0 when it is not numeric.
\<close>

definition ms_value :: "string \<Rightarrow> jsint" where
  "ms_value ms = (case parseInt_js ms of None \<Rightarrow> Fin 0 | Some n \<Rightarrow> n)"

text \<open>The body has a boolean \<^verbatim>\<open>success\<close> that is true exactly when the status is below 400.\<close>

definition success_matches :: "response \<Rightarrow> bool" where
  "success_matches r = (at_path (res_body r) [''success''] = Some (JsBool (res_status r < 400)))"

text \<open>
  What \<^verbatim>\<open>/api/auth/me\<close> needs from \<^verbatim>\<open>jsonwebtoken\<close>: the token that \<open>E\<close> signs over
  the claims of the login handler for the user name \<open>username\<close>, under the server's secret
  and with the expiry \<^verbatim>\<open>1h\<close>, is verified by \<open>E'\<close> under the same secret, and the decoded
  claims have that user name. (The package checks the signature and the expiry, so this
  holds of it while the moment of \<open>E'\<close> is less than an hour after that of \<open>E\<close>.)
\<close>

definition jwt_round_trip :: "env \<Rightarrow> env \<Rightarrow> jsval \<Rightarrow> bool" where
  "jwt_round_trip E E' username =
     (case env_verify E' (env_sign E (login_payload E username) JWT_SECRET ''1h'') JWT_SECRET of
        None \<Rightarrow> False
      | Some decoded \<Rightarrow> own_prop decoded ''username'' = Some username)"

text \<open>
  The response that \<^verbatim>\<open>login\<close> receives, the value \<^verbatim>\<open>JSON.parse\<close> makes of its body, and
  the \<^verbatim>\<open>data.token\<close> field of a parsed body (undefined when there is none).
\<close>

definition login_response :: "k6 \<Rightarrow> string \<Rightarrow> string \<Rightarrow> string \<Rightarrow> http_response" where
  "login_response K baseUrl username password =
     http_post K (baseUrl @ ''/api/auth/login'')
       (JSON_stringify K (JsObj [(''username'', JsStr username), (''password'', JsStr password)]))
       [(''Content-Type'', ''application/json'')]"

definition parsed_body :: "k6 \<Rightarrow> http_response \<Rightarrow> jsval option" where
  "parsed_body K r = JSON_parse K (case http_body r of None \<Rightarrow> ''null'' | Some b \<Rightarrow> b)"

definition token_field :: "jsval \<Rightarrow> jsval" where
  "token_field body = (case at_path body [''data'', ''token''] of None \<Rightarrow> JsUndefined | Some t \<Rightarrow> t)"

subsection \<open>Concrete inputs\<close>

text \<open>
  A toy signing scheme that stands for \<^verbatim>\<open>jsonwebtoken\<close> at concrete inputs: the token
  is the secret, a dot and the user name; verification checks the secret and gives the
  user name back. The concrete inputs have no number beyond \<open>2^53\<close>, and \<open>show_int\<close>
  stands for \<open>env_to_string\<close>.
\<close>

definition demo_sign :: "jsval \<Rightarrow> string \<Rightarrow> string \<Rightarrow> string" where
  "demo_sign payload secret expiresIn =
     (case at_path payload [''username''] of
        Some (JsStr u) \<Rightarrow> secret @ ''.'' @ u
      | _ \<Rightarrow> secret @ ''.'')"

definition demo_verify :: "string \<Rightarrow> string \<Rightarrow> jsval option" where
  "demo_verify token secret =
     (if starts_with token (secret @ ''.'')
      then Some (JsObj [(''userId'', JsNum 7), (''username'', JsStr (drop (length secret + 1) token))])
      else None)"

definition demo_env :: "real \<Rightarrow> env" where
  "demo_env r =
     \<lparr>env_random = r, env_now = ''2025-01-01T00:00:00.000Z'',
      env_sign = demo_sign, env_verify = demo_verify, env_to_string = show_int\<rparr>"

text \<open>A k6 runtime whose server answers every login with a fixed response.\<close>

definition demo_k6 :: "int \<Rightarrow> jsval option \<Rightarrow> k6" where
  "demo_k6 code parsed =
     \<lparr>http_post = (\<lambda>url payload headers. \<lparr>http_status = code, http_body = Some ''(body)''\<rparr>),
      JSON_stringify = (\<lambda>v. ''(payload)''),
      JSON_parse = (\<lambda>s. parsed)\<rparr>"

section \<open>Properties of rounding\<close>

text \<open>
  An integer of magnitude up to \<open>2^53\<close> is a double, and rounding keeps what is at least
  \<open>2^53\<close> at least that. The last facts are concrete roundings: a product that rounds
  upwards across an integer, so that the floor is 121 and not 120, and \<open>2^53 + 1\<close>, which
  rounds to \<open>2^53\<close>.
\<close>

lemma round_half_even_int: "round_half_even (of_int k) = k"
  by (simp add: round_half_even_def)

lemma round_half_even_ge: "\<lfloor>y\<rfloor> \<le> round_half_even y"
  by (simp add: round_half_even_def Let_def)

lemma round_double_exact:
  assumes "x \<noteq> 0" and "x / (2::real) powr (of_int (max \<lfloor>log 2 \<bar>x\<bar>\<rfloor> (- 1022)) - 52) = of_int k"
  shows "round_double x = x"
proof -
  let ?u = "(2::real) powr (of_int (max \<lfloor>log 2 \<bar>x\<bar>\<rfloor> (- 1022)) - 52)"
  have u: "?u > 0" by simp
  have "round_double x = of_int (round_half_even (x / ?u)) * ?u"
    using assms(1) by (simp add: round_double_def Let_def)
  also have "\<dots> = of_int k * ?u" by (simp only: assms(2) round_half_even_int)
  also have "\<dots> = x" using assms(2) u by (simp add: field_simps)
  finally show ?thesis .
qed

lemma floor_log2_bounds:
  assumes "1 \<le> a" "a < 2 ^ 53"
  shows "0 \<le> \<lfloor>log 2 a\<rfloor>" "\<lfloor>log 2 a\<rfloor> \<le> 52"
proof -
  have "0 \<le> log 2 a" using assms(1) by simp
  then show "0 \<le> \<lfloor>log 2 a\<rfloor>" by simp
  have "a < 2 powr 53" using assms(2) by (simp add: powr_realpow [symmetric])
  then have "log 2 a < 53" using assms(1) by (simp add: log_less_iff)
  then have "\<lfloor>log 2 a\<rfloor> < 53" by (simp add: floor_less_iff)
  then show "\<lfloor>log 2 a\<rfloor> \<le> 52" by simp
qed

lemma round_double_int:
  assumes "\<bar>m\<bar> < 2 ^ 53"
  shows "round_double (of_int m) = of_int m"
proof (cases "m = 0")
  case True
  then show ?thesis by (simp add: round_double_def)
next
  case False
  define a :: real where "a = \<bar>of_int m\<bar>"
  have a1: "1 \<le> a" using False unfolding a_def by (metis abs_ge_zero of_int_abs of_int_1_le_iff zero_less_abs_iff zless_imp_add1_zle add.left_neutral less_le)
  have a2: "a < 2 ^ 53" using assms unfolding a_def
    by (metis of_int_abs of_int_less_numeral_power_cancel_iff)
  define e where "e = \<lfloor>log 2 a\<rfloor>"
  have e: "0 \<le> e" "e \<le> 52" using floor_log2_bounds [OF a1 a2] unfolding e_def by simp_all
  have mx: "max e (- 1022) = e" using e by simp
  define j where "j = nat (52 - e)"
  have j: "of_int e - 52 = - real j" using e unfolding j_def by simp
  have "(2::real) powr (of_int e - 52) = 1 / 2 ^ j"
    unfolding j by (simp add: powr_minus powr_realpow field_simps)
  then have "of_int m / (2::real) powr (of_int e - 52) = of_int (m * 2 ^ j)"
    by simp
  then have "of_int m / (2::real) powr (of_int (max \<lfloor>log 2 \<bar>of_int m\<bar>\<rfloor> (- 1022)) - 52) = of_int (m * 2 ^ j)"
    using mx unfolding e_def a_def by simp
  moreover have "(of_int m :: real) \<noteq> 0" using False by simp
  ultimately show ?thesis by (rule round_double_exact [rotated])
qed

lemma round_double_pow53: "round_double (2 ^ 53) = 2 ^ 53" "round_double (- (2 ^ 53)) = - (2 ^ 53)"
proof -
  have ab: "\<bar>(2::real) ^ 53\<bar> = 2 ^ 53" "\<bar>- ((2::real) ^ 53)\<bar> = 2 ^ 53" by simp_all
  have lg: "log 2 ((2::real) ^ 53) = of_nat 53" by (rule log_pow_cancel) simp_all
  have l: "\<lfloor>log 2 \<bar>(2::real) ^ 53\<bar>\<rfloor> = 53" "\<lfloor>log 2 \<bar>- ((2::real) ^ 53)\<bar>\<rfloor> = 53"
    unfolding ab lg by simp_all
  have u: "(2::real) powr (of_int (max 53 (- 1022)) - 52) = 2" by simp
  have nz: "(2::real) ^ 53 \<noteq> 0" "- ((2::real) ^ 53) \<noteq> 0" by simp_all
  have "(2::real) ^ 53 / 2 = of_int (2 ^ 52)" by simp
  then have h: "round_half_even ((2::real) ^ 53 / 2) = 2 ^ 52" by (simp only: round_half_even_int)
  have "- ((2::real) ^ 53) / 2 = of_int (- (2 ^ 52))" by simp
  then have h': "round_half_even (- ((2::real) ^ 53) / 2) = - (2 ^ 52)" by (simp only: round_half_even_int)
  show "round_double (2 ^ 53) = 2 ^ 53"
    unfolding round_double_def Let_def by (simp only: nz if_False l(1) u h) simp
  show "round_double (- (2 ^ 53)) = - (2 ^ 53)"
    unfolding round_double_def Let_def by (simp only: nz if_False l(2) u h') simp
qed

lemma round_double_safe:
  assumes "\<bar>m\<bar> \<le> 2 ^ 53"
  shows "round_double (of_int m) = of_int m"
proof -
  consider "\<bar>m\<bar> < 2 ^ 53" | "m = 2 ^ 53" | "m = - (2 ^ 53)" using assms by linarith
  then show ?thesis
  proof cases
    case 1
    then show ?thesis by (rule round_double_int)
  next
    case 2
    then show ?thesis using round_double_pow53(1) by simp
  next
    case 3
    then show ?thesis using round_double_pow53(2) by simp
  qed
qed

lemma to_jsint_safe:
  assumes "\<bar>m\<bar> \<le> 2 ^ 53"
  shows "to_jsint m = Fin m"
proof -
  have r: "round_double (of_int m) = of_int m" using assms by (rule round_double_safe)
  have "(of_int m :: real) \<le> 2 ^ 53" "- (2 ^ 53) \<le> (of_int m :: real)"
    using assms by (simp_all add: abs_le_iff) 
  moreover have "(2::real) ^ 53 < 2 ^ 1024" by simp
  ultimately have "\<not> 2 ^ 1024 \<le> (of_int m :: real)" "\<not> (of_int m :: real) \<le> - (2 ^ 1024)"
    by linarith+
  then show ?thesis by (simp add: to_jsint_def r)
qed


lemma two_powr_floor_log: "0 < a \<Longrightarrow> 2 powr (of_int \<lfloor>log 2 a\<rfloor>) \<le> a"
proof -
  assume a: "0 < a"
  have "of_int \<lfloor>log 2 a\<rfloor> \<le> log 2 a" by simp
  then have "(2::real) powr (of_int \<lfloor>log 2 a\<rfloor>) \<le> 2 powr (log 2 a)" by simp
  then show ?thesis using a by simp
qed

lemma round_double_large:
  assumes "2 ^ 53 \<le> x"
  shows "2 ^ 53 \<le> round_double x"
proof -
  have "(0::real) < 2 ^ 53" by simp
  with assms have x0: "0 < x" "x \<noteq> 0" by linarith+
  define e where "e = \<lfloor>log 2 \<bar>x\<bar>\<rfloor>"
  have "(2::real) powr 53 \<le> x" using assms by (simp add: powr_realpow [symmetric])
  then have "53 \<le> log 2 x" using x0 by (simp add: le_log_iff)
  then have e53: "53 \<le> e" unfolding e_def using x0 by (simp add: le_floor_iff)
  then have mx: "max e (- 1022) = e" by simp
  define u :: real where "u = 2 powr (of_int e - 52)"
  have u0: "0 < u" unfolding u_def by simp
  have u2: "2 \<le> u"
  proof -
    have "(1::real) \<le> of_int e - 52" using e53 by simp
    then have "(2::real) powr 1 \<le> 2 powr (of_int e - 52)" by (subst powr_le_cancel_iff) simp_all
    then show ?thesis unfolding u_def by simp
  qed
  have "2 powr (of_int e) \<le> x" using two_powr_floor_log [of "\<bar>x\<bar>"] x0 unfolding e_def by simp
  moreover have "(2::real) powr (of_int e) = 2 ^ 52 * u"
    unfolding u_def by (simp add: powr_diff)
  ultimately have "2 ^ 52 \<le> x / u" using u0 by (simp add: field_simps)
  then have "(2::int) ^ 52 \<le> \<lfloor>x / u\<rfloor>" by (simp add: le_floor_iff)
  then have "(2::int) ^ 52 \<le> round_half_even (x / u)" using round_half_even_ge [of "x / u"] by linarith
  then have "(2::real) ^ 52 \<le> of_int (round_half_even (x / u))"
    by (metis of_int_le_iff of_int_numeral of_int_power)
  then have "2 ^ 52 * 2 \<le> of_int (round_half_even (x / u)) * u"
    using u2 by (intro mult_mono) simp_all
  moreover have "round_double x = of_int (round_half_even (x / u)) * u"
    using x0 mx unfolding round_double_def Let_def u_def e_def by simp
  ultimately show ?thesis by simp
qed

lemma to_jsint_large:
  assumes "2 ^ 53 \<le> m"
  shows "to_jsint m = PosInf \<or> (\<exists>v. to_jsint m = Fin v \<and> 2 ^ 53 \<le> v)"
proof -
  have "(2::real) ^ 53 \<le> of_int m" using assms by (metis of_int_le_iff of_int_numeral of_int_power)
  then have r: "2 ^ 53 \<le> round_double (of_int m)" by (rule round_double_large)
  then have "(2::int) ^ 53 \<le> \<lfloor>round_double (of_int m)\<rfloor>" by (simp add: le_floor_iff)
  moreover have "(0::real) < 2 ^ 53" "(0::real) < 2 ^ 1024" by simp_all
  with r have "\<not> round_double (of_int m) \<le> - (2 ^ 1024)" by linarith
  ultimately show ?thesis by (simp add: to_jsint_def Let_def)
qed

lemma round_double_at:
  assumes "2 powr (of_int e) \<le> \<bar>x\<bar>" "\<bar>x\<bar> < 2 powr (of_int e + 1)" "- 1022 \<le> e"
  shows "round_double x = of_int (round_half_even (x / 2 powr (of_int e - 52))) * 2 powr (of_int e - 52)"
proof -
  have "(0::real) < 2 powr (of_int e)" by simp
  with assms(1) have x0: "x \<noteq> 0" by auto
  then have a0: "0 < \<bar>x\<bar>" by simp
  have "of_int e \<le> log 2 \<bar>x\<bar>" using assms(1) a0 by (simp add: le_log_iff)
  moreover have "log 2 \<bar>x\<bar> < of_int e + 1" using assms(2) a0 by (simp add: log_less_iff)
  ultimately have "\<lfloor>log 2 \<bar>x\<bar>\<rfloor> = e" by (simp add: floor_eq_iff)
  then show ?thesis using x0 assms(3) by (simp add: round_double_def Let_def max_def)
qed

lemma round_double_rounds_up: "\<lfloor>round_double (54493555491183 / 2 ^ 52 * 10000)\<rfloor> = 121"
proof -
  let ?x = "54493555491183 / 2 ^ 52 * 10000 :: real"
  have r: "round_double ?x = of_int (round_half_even (?x / 2 powr (of_int 6 - 52))) * 2 powr (of_int 6 - 52)"
    by (rule round_double_at) (simp_all add: powr_realpow [symmetric] del: powr_realpow)
  have p: "(2::real) powr (of_int 6 - 52) = 1 / 2 ^ 46"
    by (simp add: powr_minus powr_realpow field_simps)
  have q: "?x / (1 / 2 ^ 46) = 34058472181989375 / 4" by simp
  have h: "round_half_even (34058472181989375 / 4) = 8514618045497344"
    by (simp add: round_half_even_def Let_def)
  have "round_double ?x = of_int 8514618045497344 * (1 / 2 ^ 46)"
    by (simp only: r p q h)
  also have "\<dots> = 121" by simp
  finally show ?thesis by simp
qed

lemma to_jsint_rounds: "to_jsint 9007199254740993 = Fin 9007199254740992"
proof -
  let ?x = "9007199254740993 :: real"
  have r: "round_double ?x = of_int (round_half_even (?x / 2 powr (of_int 53 - 52))) * 2 powr (of_int 53 - 52)"
    by (rule round_double_at) (simp_all add: powr_realpow [symmetric] del: powr_realpow)
  have p: "(2::real) powr (of_int 53 - 52) = 2" by simp
  have h: "round_half_even (?x / 2) = 4503599627370496"
    by (simp add: round_half_even_def Let_def)
  have "round_double ?x = of_int 4503599627370496 * 2" by (simp only: r p h)
  then have "round_double (of_int 9007199254740993) = 9007199254740992" by simp
  then show ?thesis by (simp add: to_jsint_def)
qed

lemma random_below_rounds_up: "random_below (demo_env (54493555491183 / 2 ^ 52)) 10000 = 121"
  using round_double_rounds_up by (simp add: random_below_def demo_env_def)

section \<open>Properties of parsing and formatting\<close>

text \<open>
  \<^verbatim>\<open>parseInt\<close> reads the decimal form of a natural number back: the form has digits
  only, so no white space, sign or \<^verbatim>\<open>0x\<close> prefix is found, and the digits' value is the
  number.
\<close>

lemma digit_code: "n < 10 \<Longrightarrow> (of_char (char_of (48 + n) :: char) :: nat) = 48 + n"
  by (simp add: of_char_of)

lemma show_nat_all_dec: "all_dec (show_nat n)"
proof (induction n rule: show_nat.induct)
  case (1 n)
  show ?case
  proof (cases "n < 10")
    case True
    then show ?thesis by (subst show_nat.simps) (simp add: all_dec_def of_char_of)
  next
    case False
    have "n mod 10 < 10" by simp
    then have "(of_char (char_of (48 + n mod 10) :: char) :: nat) = 48 + n mod 10"
      by (rule digit_code)
    with False 1 show ?thesis
      by (subst show_nat.simps) (auto simp: all_dec_def)
  qed
qed

lemma show_nat_nonempty: "show_nat n \<noteq> []"
  by (subst show_nat.simps) simp

lemma dec_is_digit: "48 \<le> (of_char c :: nat) \<Longrightarrow> (of_char c :: nat) \<le> 57 \<Longrightarrow> is_digit 10 c"
  by (simp add: is_digit_def digit_val_def Let_def)

lemma takeWhile_all_dec: "all_dec s \<Longrightarrow> takeWhile (is_digit 10) s = s"
  by (simp add: all_dec_def dec_is_digit)

lemma ws_len_digit: "48 \<le> (of_char c :: nat) \<Longrightarrow> (of_char c :: nat) \<le> 57 \<Longrightarrow> ws_len (c # s) = 0"
  by (simp add: ws_len_def)

lemma skip_ws_digit: "48 \<le> (of_char c :: nat) \<Longrightarrow> (of_char c :: nat) \<le> 57 \<Longrightarrow> skip_ws (c # s) = c # s"
  by (subst skip_ws.simps) (simp add: ws_len_digit)

lemma parseInt_all_dec:
  assumes "s \<noteq> []" "all_dec s"
  shows "parseInt_js s = Some (to_jsint (int (digits_value 10 s)))"
proof -
  obtain c r where s: "s = c # r" using assms(1) by (cases s) auto
  have c: "48 \<le> (of_char c :: nat)" "(of_char c :: nat) \<le> 57"
    using assms(2) by (auto simp: s all_dec_def)
  have sk: "skip_ws s = s" unfolding s using c by (rule skip_ws_digit)
  have nosign: "take 1 s \<noteq> ''-''" "take 1 s \<noteq> ''+''"
    using c by (auto simp: s)
  have nohex: "take 2 s \<noteq> ''0x''" "take 2 s \<noteq> ''0X''"
    using assms(2) by (cases r; auto simp: s all_dec_def)+
  show ?thesis
    using sk nosign nohex assms by (simp add: parseInt_js_def Let_def takeWhile_all_dec)
qed

lemma digits_value_snoc:
  "digits_value radix (s @ [c]) = digits_value radix s * radix + (case digit_val c of None \<Rightarrow> 0 | Some d \<Rightarrow> d)"
  by (simp add: digits_value_def)

lemma digit_val_char: "n < 10 \<Longrightarrow> digit_val (char_of (48 + n)) = Some n"
  by (simp add: digit_val_def Let_def of_char_of)

lemma digits_value_show_nat: "digits_value 10 (show_nat n) = n"
proof (induction n rule: show_nat.induct)
  case (1 n)
  show ?case
  proof (cases "n < 10")
    case True
    then show ?thesis
      by (subst show_nat.simps) (simp add: digits_value_def digit_val_char)
  next
    case False
    have "digit_val (char_of (48 + n mod 10)) = Some (n mod 10)"
      by (rule digit_val_char) simp
    with False 1 show ?thesis
      by (subst show_nat.simps) (simp add: digits_value_snoc)
  qed
qed

lemma parseInt_show_nat_rounded: "parseInt_js (show_nat n) = Some (to_jsint (int n))"
  using parseInt_all_dec [OF show_nat_nonempty show_nat_all_dec, of n]
  by (simp add: digits_value_show_nat)

lemma parseInt_show_nat: "n \<le> 2 ^ 53 \<Longrightarrow> parseInt_js (show_nat n) = Some (Fin (int n))"
proof -
  assume "n \<le> 2 ^ 53"
  then have "\<bar>int n\<bar> \<le> 2 ^ 53" by (simp add: numeral_power_le_of_nat_cancel_iff of_nat_le_numeral_power_cancel_iff)
  then show ?thesis by (simp add: parseInt_show_nat_rounded to_jsint_safe)
qed

lemma math_min_large:
  assumes "2 ^ 53 \<le> m"
  shows "math_min (to_jsint m) (Fin 10000) = Fin 10000"
  using to_jsint_large [OF assms] by auto

text \<open>A string with no decimal digit has no number to parse.\<close>

lemma skip_ws_subset: "set (skip_ws s) \<subseteq> set s"
proof (induction s rule: skip_ws.induct)
  case (1 s)
  show ?case
  proof (cases "ws_len s = 0")
    case True
    then show ?thesis by (subst skip_ws.simps) simp
  next
    case False
    have "set (skip_ws (drop (ws_len s) s)) \<subseteq> set (drop (ws_len s) s)"
      using False by (rule 1)
    also have "\<dots> \<subseteq> set s" by (rule set_drop_subset)
    finally show ?thesis using False by (subst skip_ws.simps) simp
  qed
qed

lemma zero_is_digit: "is_digit 10 CHR ''0''"
  by (simp add: is_digit_def digit_val_def)

lemma parseInt_no_digit:
  assumes "\<forall>c \<in> set s. \<not> is_digit 10 c"
  shows "parseInt_js s = None"
proof -
  define s0 where "s0 = skip_ws s"
  define s1 where "s1 = (if take 1 s0 = ''-'' \<or> take 1 s0 = ''+'' then drop 1 s0 else s0)"
  have sub0: "set s0 \<subseteq> set s" unfolding s0_def by (rule skip_ws_subset)
  have "set s1 \<subseteq> set s0" unfolding s1_def using set_drop_subset [of 1 s0] by auto
  with sub0 have sub1: "set s1 \<subseteq> set s" by blast
  have nd: "\<forall>c \<in> set s1. \<not> is_digit 10 c" using assms sub1 by blast
  have nohex: "take 2 s1 \<noteq> ''0x''" "take 2 s1 \<noteq> ''0X''"
  proof -
    have "CHR ''0'' \<notin> set s1" using nd zero_is_digit by blast
    moreover have "set (take 2 s1) \<subseteq> set s1" by (rule set_take_subset)
    ultimately have "CHR ''0'' \<notin> set (take 2 s1)" by blast
    then show "take 2 s1 \<noteq> ''0x''" "take 2 s1 \<noteq> ''0X''" by auto
  qed
  have "takeWhile (is_digit 10) s1 = []"
    using nd by (cases s1) auto
  then show ?thesis
    using nohex unfolding parseInt_js_def Let_def s1_def s0_def by simp
qed

lemma get_prop_field:
  "b \<noteq> JsUndefined \<Longrightarrow> b \<noteq> JsNull \<Longrightarrow> get_prop b k = Inr (field b k)"
  by (cases b) (simp_all add: field_def)

lemmas eval_parse =
  parseInt_js_def ws_len_def skip_ws.simps is_digit_def digit_val_def digits_value_def

text \<open>Beyond \<open>2^53\<close> the parsed number is the nearest double.\<close>

lemma parseInt_rounds: "parseInt_js ''9007199254740993'' = Some (Fin 9007199254740992)"
proof -
  have "parseInt_js ''9007199254740993'' = Some (to_jsint 9007199254740993)"
    by (simp add: eval_parse)
  then show ?thesis by (simp only: to_jsint_rounds)
qed

section \<open>The success flag of each handler\<close>

lemma sm_status_json:
  "success_matches (status_json c (JsObj ((''success'', JsBool b) # rest))) = (b = (c < 400))"
  by (auto simp: success_matches_def status_json_def)

lemma sm_json: "success_matches (json (JsObj ((''success'', JsBool True) # rest)))"
  by (simp add: json_def sm_status_json)

lemma sm_wait: "success_matches (r\<lparr>res_wait := w\<rparr>) = success_matches r"
  by (simp add: success_matches_def)

lemma sm_error: "success_matches (error_handler e)"
  by (simp add: error_handler_def sm_status_json)

lemma sm_post_users: "success_matches (catch (post_users E b))"
  by (simp add: post_users_def catch_def sm_error sm_status_json Let_def split: sum.splits)

lemma sm_put_user: "success_matches (catch (put_user E i b))"
  by (simp add: put_user_def catch_def sm_error sm_json Let_def split: sum.splits)

lemma sm_post_login: "success_matches (catch (post_login E b))"
  by (simp add: post_login_def catch_def sm_error sm_status_json sm_json Let_def split: sum.splits)

lemma sm_get_me: "success_matches (get_me E a)"
  by (simp add: get_me_def sm_status_json sm_json Let_def split: option.splits sum.splits)

lemma sm_large: "success_matches (catch (get_large_payload E q))"
  by (simp add: get_large_payload_def catch_def sm_error sm_json Let_def split: sum.splits)

lemma sm_get_status: "success_matches (catch (get_status c))"
  by (simp add: get_status_def catch_def sm_error sm_status_json split: jsint.splits)

lemma sm_app:
  assumes "req \<noteq> GetHealth"
  shows "success_matches (app E req)"
proof (cases req)
  case GetHealth
  with assms show ?thesis by simp
next
  case GetUsers
  then show ?thesis by (simp add: get_users_def sm_json)
next
  case (GetUser i)
  then show ?thesis by (simp add: get_user_def sm_json Let_def)
next
  case (PostUsers b)
  then show ?thesis by (simp add: sm_post_users)
next
  case (PutUser i b)
  then show ?thesis by (simp add: sm_put_user)
next
  case (DeleteUser i)
  then show ?thesis by (simp add: delete_user_def sm_json Let_def)
next
  case (PostLogin b)
  then show ?thesis by (simp add: sm_post_login)
next
  case (GetMe a)
  then show ?thesis by (simp add: sm_get_me)
next
  case (GetDelay ms)
  then show ?thesis by (simp add: get_delay_def sm_json sm_wait Let_def)
next
  case GetRandomDelay
  then show ?thesis by (simp add: get_random_delay_def sm_json sm_wait Let_def)
next
  case (GetStatus c)
  then show ?thesis by (simp add: sm_get_status)
next
  case GetRandomError
  then show ?thesis by (simp add: get_random_error_def sm_status_json sm_json)
next
  case (GetLargePayload q)
  then show ?thesis by (simp add: sm_large)
next
  case PostUpload
  then show ?thesis by (simp add: post_upload_def sm_json)
next
  case Unmatched
  then show ?thesis by (simp add: not_found_def sm_status_json)
qed

section \<open>Auxiliary facts about the handlers\<close>

lemma get_prop_own: "own_prop v k = Some x \<Longrightarrow> get_prop v k = Inr x"
  by (cases v) simp_all

lemma get_prop_obj: "own_prop v k = Some x \<Longrightarrow> \<exists>y. get_prop v k' = Inr y"
  by (cases v) simp_all

lemma bearer: "starts_with (''Bearer '' @ t) ''Bearer '' \<and> drop 7 (''Bearer '' @ t) = t"
  by (simp add: starts_with_def)

lemma get_me_verified:
  assumes "env_verify E' t JWT_SECRET = Some decoded" "own_prop decoded ''username'' = Some u"
  shows "res_status (get_me E' (Some (''Bearer '' @ t))) = 200
     \<and> at_path (res_body (get_me E' (Some (''Bearer '' @ t)))) [''data'', ''username''] = Some u"
proof -
  obtain y where y: "get_prop decoded ''userId'' = Inr y"
    using get_prop_obj [OF assms(2)] by blast
  have u: "get_prop decoded ''username'' = Inr u"
    using assms(2) by (rule get_prop_own)
  have b: "starts_with (''Bearer '' @ t) ''Bearer ''" "drop 7 (''Bearer '' @ t) = t"
    using bearer by simp_all
  show ?thesis
    unfolding get_me_def using assms(1) y u b
    by (simp add: json_def status_json_def Let_def)
qed

lemma demo_round_trip: "jwt_round_trip (demo_env r) (demo_env r') (JsStr u)"
  by (simp add: jwt_round_trip_def login_payload_def demo_env_def demo_sign_def demo_verify_def
      starts_with_def)

lemma large_payload_items:
  assumes "parseInt_js (case q of None \<Rightarrow> ''undefined'' | Some v \<Rightarrow> q_to_string v) = p"
    and "or_num p 100 = Fin (int n)" and "n < 2 ^ 32"
  shows "res_status (app E (GetLargePayload q)) = 200
     \<and> (\<exists>items. at_path (res_body (app E (GetLargePayload q))) [''data''] = Some (JsArr items)
           \<and> length items = n)
     \<and> at_path (res_body (app E (GetLargePayload q))) [''count''] = Some (JsNum (of_nat n))"
proof -
  have "\<not> (2 ^ 32 \<le> int n)" using assms(3) by (simp add: numeral_power_le_of_nat_cancel_iff)
  then show ?thesis
    using assms(1,2)
    by (simp add: get_large_payload_def catch_def json_def status_json_def Let_def)
qed

lemma data_token_field:
  "(case data_token body of Inl e \<Rightarrow> JsNull | Inr token \<Rightarrow> js_or token JsNull)
     = (if truthy (token_field body) then token_field body else JsNull)"
proof (cases body)
  case (JsObj kvs)
  show ?thesis
  proof (cases "map_of kvs ''data''")
    case None
    with JsObj show ?thesis by (simp add: data_token_def token_field_def js_or_def)
  next
    case (Some d)
    with JsObj show ?thesis
      by (cases d) (simp_all add: data_token_def token_field_def js_or_def split: option.splits)
  qed
qed (simp_all add: data_token_def token_field_def js_or_def)

lemma login_unfold:
  "login K baseUrl username password =
     (let r = login_response K baseUrl username password
      in if http_status r = 200 then
           (case parsed_body K r of None \<Rightarrow> JsNull
            | Some body \<Rightarrow> if truthy (token_field body) then token_field body else JsNull)
         else JsNull)"
  by (simp add: login_def login_response_def parsed_body_def Let_def data_token_field
      split: option.splits)

section \<open>Properties of the handlers\<close>

text \<open>
  C4. \<^verbatim>\<open>GET /api/delay/:ms\<close>: for every path parameter, the handler answers 200 after
  awaiting a timer of \<open>min(ms, 10000)\<close> milliseconds, where \<open>ms\<close> is the number that
  \<^verbatim>\<open>parseInt\<close> reads from the parameter and 0 when the parameter is not numeric; the
  body's \<^verbatim>\<open>data.actualDelay\<close> is \<open>min(ms, 10000)\<close> and \<^verbatim>\<open>data.requestedDelay\<close> is the
  parsed \<open>ms\<close>. The decimal form of a natural number \<open>n\<close> up to \<open>2^53\<close> parses to \<open>n\<close>; for
  every \<open>n\<close>, also where the parsed number is \<open>n\<close> rounded to a double or infinite, the
  delay awaited is \<open>min(n, 10000)\<close>; and a parameter without a decimal digit counts as 0.
  (The wait is the delay handed to \<^verbatim>\<open>setTimeout\<close>; the time that passes on the clock is
  not represented.)
\<close>

theorem get_delay_min:
  "res_status (app E (GetDelay ms)) = 200
   \<and> res_wait (app E (GetDelay ms)) = Some (math_min (ms_value ms) (Fin 10000))
   \<and> at_path (res_body (app E (GetDelay ms))) [''data'', ''requestedDelay'']
       = Some (num_js (ms_value ms))
   \<and> at_path (res_body (app E (GetDelay ms))) [''data'', ''actualDelay'']
       = Some (num_js (math_min (ms_value ms) (Fin 10000)))
   \<and> (n \<le> 2 ^ 53 \<longrightarrow> ms_value (show_nat n) = Fin (int n))
   \<and> math_min (ms_value (show_nat n)) (Fin 10000) = Fin (min (int n) 10000)
   \<and> ((\<forall>ch \<in> set ms. \<not> is_digit 10 ch) \<longrightarrow> ms_value ms = Fin 0)"
proof -
  have v: "or_num (parseInt_js ms) 0 = ms_value ms"
    by (simp add: or_num_def ms_value_def split: option.splits)
  have handler: "res_status (app E (GetDelay ms)) = 200
      \<and> res_wait (app E (GetDelay ms)) = Some (math_min (ms_value ms) (Fin 10000))
      \<and> at_path (res_body (app E (GetDelay ms))) [''data'', ''requestedDelay'']
          = Some (num_js (ms_value ms))
      \<and> at_path (res_body (app E (GetDelay ms))) [''data'', ''actualDelay'']
          = Some (num_js (math_min (ms_value ms) (Fin 10000)))"
    by (simp add: get_delay_def json_def status_json_def Let_def v)
  have safe: "ms_value (show_nat n) = Fin (int n)" if "n \<le> 2 ^ 53"
    using that by (simp add: ms_value_def parseInt_show_nat)
  have every: "math_min (ms_value (show_nat n)) (Fin 10000) = Fin (min (int n) 10000)"
  proof (cases "n \<le> 2 ^ 53")
    case True
    then show ?thesis by (simp add: safe)
  next
    case False
    then have "(2::nat) ^ 53 \<le> n" by simp
    then have big: "(2::int) ^ 53 \<le> int n"
      by (metis of_nat_le_iff of_nat_numeral of_nat_power)
    then have "min (int n) 10000 = 10000" by simp
    then show ?thesis
      using math_min_large [OF big] by (simp add: ms_value_def parseInt_show_nat_rounded)
  qed
  have nodigit: "ms_value ms = Fin 0" if "\<forall>ch \<in> set ms. \<not> is_digit 10 ch"
    using parseInt_no_digit [OF that] by (simp add: ms_value_def)
  show ?thesis using handler safe every nodigit by blast
qed

theorem get_delay_min_witness:
  "res_wait (app (demo_env 0) (GetDelay ''12345'')) = Some (Fin 10000)
   \<and> at_path (res_body (app (demo_env 0) (GetDelay ''12345''))) [''data'', ''requestedDelay'']
       = Some (JsNum 12345)
   \<and> res_wait (app (demo_env 0) (GetDelay ''soon'')) = Some (Fin 0)"
proof -
  have "parseInt_js ''12345'' = Some (to_jsint 12345)" and "parseInt_js ''soon'' = None"
    by (simp_all add: eval_parse)
  then have "ms_value ''12345'' = Fin 12345" and "ms_value ''soon'' = Fin 0"
    by (simp_all add: ms_value_def to_jsint_safe)
  then show ?thesis
    using get_delay_min [of "demo_env 0" "''12345''" 0] get_delay_min [of "demo_env 0" "''soon''" 0]
    by simp
qed

text \<open>
  C6. \<^verbatim>\<open>GET /api/status/:code\<close>: for every status code \<open>c\<close> of the HTTP range 100..599
  given in decimal, the status passed to \<^verbatim>\<open>res.status\<close> is \<open>c\<close> and the body's
  \<^verbatim>\<open>success\<close> is true exactly when \<open>c < 400\<close>; for a parameter that is not numeric
  (\<^verbatim>\<open>parseInt\<close> gives NaN, as it does of every parameter without a decimal digit) the
  status is 200.
\<close>

theorem get_status_echo:
  "(100 \<le> c \<and> c \<le> 599 \<longrightarrow>
      res_status (app E (GetStatus (show_nat c))) = int c
      \<and> at_path (res_body (app E (GetStatus (show_nat c)))) [''success''] = Some (JsBool (c < 400)))
   \<and> (parseInt_js code = None \<longrightarrow> res_status (app E (GetStatus code)) = 200)
   \<and> ((\<forall>ch \<in> set code. \<not> is_digit 10 ch) \<longrightarrow> res_status (app E (GetStatus code)) = 200)"
proof -
  have echo: "res_status (app E (GetStatus (show_nat c))) = int c
      \<and> at_path (res_body (app E (GetStatus (show_nat c)))) [''success''] = Some (JsBool (c < 400))"
    if "100 \<le> c \<and> c \<le> 599"
  proof -
    have "c \<le> 2 ^ 53" using that by simp
    then have "parseInt_js (show_nat c) = Some (Fin (int c))" by (rule parseInt_show_nat)
    then show ?thesis
      using that by (simp add: get_status_def catch_def status_json_def or_num_def)
  qed
  have nan: "res_status (app E (GetStatus code)) = 200" if "parseInt_js code = None"
    using that by (simp add: get_status_def catch_def status_json_def or_num_def)
  have nodigit: "res_status (app E (GetStatus code)) = 200" if "\<forall>ch \<in> set code. \<not> is_digit 10 ch"
    using parseInt_no_digit [OF that] by (rule nan)
  show ?thesis using echo nan nodigit by blast
qed

theorem get_status_echo_witness:
  "res_status (app (demo_env 0) (GetStatus ''404'')) = 404
   \<and> at_path (res_body (app (demo_env 0) (GetStatus ''404''))) [''success''] = Some (JsBool False)
   \<and> parseInt_js ''abc'' = None
   \<and> res_status (app (demo_env 0) (GetStatus ''abc'')) = 200"
proof -
  have "show_nat 404 = ''404''" by code_simp
  moreover have "parseInt_js ''abc'' = None" by (simp add: eval_parse)
  ultimately show ?thesis
    using get_status_echo [of 404 "demo_env 0" "''abc''"] by simp
qed

text \<open>
  C8. \<^verbatim>\<open>GET /api/random-error\<close>, with the draw of \<^verbatim>\<open>Math.random()\<close> as the input \<open>r\<close>:
  the status is 500 with \<^verbatim>\<open>success: false\<close> exactly when \<open>r < 0.2\<close>, and 200 with
  \<^verbatim>\<open>success: true\<close> otherwise. The draws of \<open>[0, 1)\<close> that give 500 are the interval
  \<open>[0, 1/5)\<close>, a fifth of the whole, and on every uniform grid \<open>k / (5 m)\<close> of \<open>5 m\<close> draws
  exactly \<open>m\<close> give 500: the probability of a 500 is 0.2.
\<close>

theorem random_error_threshold:
  "res_status (app E GetRandomError) = (if env_random E < 0.2 then 500 else 200)
   \<and> at_path (res_body (app E GetRandomError)) [''success''] = Some (JsBool (\<not> env_random E < 0.2))
   \<and> {r. 0 \<le> r \<and> r < 1 \<and> res_status (app (E\<lparr>env_random := r\<rparr>) GetRandomError) = 500} = {0 ..< 1/5}
   \<and> card {k. k < 5 * Suc m
          \<and> res_status (app (E\<lparr>env_random := real k / real (5 * Suc m)\<rparr>) GetRandomError) = 500} = Suc m"
proof -
  have status: "\<And>E. res_status (app E GetRandomError) = (if env_random E < 0.2 then 500 else 200)"
    by (simp add: get_random_error_def status_json_def json_def)
  have success: "at_path (res_body (app E GetRandomError)) [''success'']
      = Some (JsBool (\<not> env_random E < 0.2))"
    by (simp add: get_random_error_def status_json_def json_def)
  have interval: "{r. 0 \<le> r \<and> r < 1 \<and> res_status (app (E\<lparr>env_random := r\<rparr>) GetRandomError) = 500}
      = {0 ..< 1/5}"
    unfolding status by auto
  have "{k. k < 5 * Suc m
          \<and> res_status (app (E\<lparr>env_random := real k / real (5 * Suc m)\<rparr>) GetRandomError) = 500}
      = {k. k < Suc m}"
    unfolding status by (auto simp: field_simps)
  then have grid: "card {k. k < 5 * Suc m
          \<and> res_status (app (E\<lparr>env_random := real k / real (5 * Suc m)\<rparr>) GetRandomError) = 500} = Suc m"
    by simp
  show ?thesis using status success interval grid by (intro conjI)
qed

theorem random_error_threshold_witness:
  "res_status (app (demo_env (1/10)) GetRandomError) = 500
   \<and> at_path (res_body (app (demo_env (1/10)) GetRandomError)) [''success''] = Some (JsBool False)
   \<and> res_status (app (demo_env (1/5)) GetRandomError) = 200
   \<and> at_path (res_body (app (demo_env (1/5)) GetRandomError)) [''success''] = Some (JsBool True)"
  using random_error_threshold [of "demo_env (1/10)" 0] random_error_threshold [of "demo_env (1/5)" 0]
  by (simp add: demo_env_def)

text \<open>
  C9. Every handler of an \<^verbatim>\<open>/api\<close> route, the 404 handler (\<open>Unmatched\<close>) and the error
  handler (reached when a handler throws, and stated for itself as well) answer with an
  object whose \<^verbatim>\<open>success\<close> is a boolean, true exactly when the status code is below
  400. \<^verbatim>\<open>/health\<close> is excepted: its body has no \<^verbatim>\<open>success\<close>.
\<close>

theorem success_iff_status_below_400:
  "(req \<noteq> GetHealth \<longrightarrow>
      at_path (res_body (app E req)) [''success''] = Some (JsBool (res_status (app E req) < 400)))
   \<and> at_path (res_body (error_handler err)) [''success'']
       = Some (JsBool (res_status (error_handler err) < 400))
   \<and> at_path (res_body (app E GetHealth)) [''success''] = None"
  using sm_app [of req E] sm_error [of err]
  by (simp add: success_matches_def get_health_def json_def status_json_def)

theorem success_iff_status_below_400_witness:
  "res_status (app (demo_env 0) (PostLogin (JsObj [(''password'', JsStr ''wrong'')]))) = 400
   \<and> at_path (res_body (app (demo_env 0) (PostLogin (JsObj [(''password'', JsStr ''wrong'')]))))
        [''success''] = Some (JsBool False)"
  using success_iff_status_below_400
    [of "PostLogin (JsObj [(''password'', JsStr ''wrong'')])" "demo_env 0" TypeError]
  by (simp add: post_login_def catch_def status_json_def)

text \<open>
  C1, as the code has it. \<^verbatim>\<open>POST /api/users\<close> tests \<^verbatim>\<open>!name || !email\<close>: for every
  request body (any value but undefined and null, which a parsed JSON body never is) in
  which \<^verbatim>\<open>name\<close> and \<^verbatim>\<open>email\<close> are both truthy, the answer is 201 with
  \<^verbatim>\<open>success: true\<close>, a numeric \<^verbatim>\<open>data.id\<close> (the floor of 10000 times the random draw)
  and the submitted \<^verbatim>\<open>name\<close> and \<^verbatim>\<open>email\<close>; when either is falsy (absent, null, false,
  0 or the empty string) the answer is 400 with \<^verbatim>\<open>success: false\<close>; and 400 is the
  answer exactly in that case. A missing field (absent, null or empty) is falsy.
\<close>

theorem post_users_truthy:
  assumes "body \<noteq> JsUndefined" and "body \<noteq> JsNull"
  shows "(truthy (field body ''name'') \<and> truthy (field body ''email'') \<longrightarrow>
            res_status (app E (PostUsers body)) = 201
          \<and> at_path (res_body (app E (PostUsers body))) [''success''] = Some (JsBool True)
          \<and> at_path (res_body (app E (PostUsers body))) [''data'', ''id'']
              = Some (JsNum (of_int (random_below E 10000)))
          \<and> at_path (res_body (app E (PostUsers body))) [''data'', ''name''] = Some (field body ''name'')
          \<and> at_path (res_body (app E (PostUsers body))) [''data'', ''email''] = Some (field body ''email''))
       \<and> (\<not> truthy (field body ''name'') \<or> \<not> truthy (field body ''email'') \<longrightarrow>
            res_status (app E (PostUsers body)) = 400
          \<and> at_path (res_body (app E (PostUsers body))) [''success''] = Some (JsBool False))
       \<and> (res_status (app E (PostUsers body)) = 400
            \<longleftrightarrow> \<not> truthy (field body ''name'') \<or> \<not> truthy (field body ''email''))
       \<and> (missing (field body ''name'') \<or> missing (field body ''email'')
            \<longrightarrow> res_status (app E (PostUsers body)) = 400)"
proof -
  have m: "\<And>v. missing v \<Longrightarrow> \<not> truthy v"
    by (auto simp: missing_def)
  show ?thesis
    using assms m [of "field body ''name''"] m [of "field body ''email''"]
    by (auto simp: post_users_def catch_def get_prop_field status_json_def Let_def)
qed

theorem post_users_truthy_witness:
  "res_status (app (demo_env (1/4)) (PostUsers (JsObj [(''name'', JsStr ''Hanako''), (''email'', JsStr ''h@example.com'')]))) = 201
   \<and> at_path (res_body (app (demo_env (1/4)) (PostUsers (JsObj [(''name'', JsStr ''Hanako''), (''email'', JsStr ''h@example.com'')]))))
        [''data'', ''id''] = Some (JsNum 2500)
   \<and> res_status (app (demo_env (1/4)) (PostUsers (JsObj [(''name'', JsStr ''Hanako'')]))) = 400"
proof -
  have "round_double (of_int 2500) = of_int 2500" by (rule round_double_safe) simp
  then have "random_below (demo_env (1/4)) 10000 = 2500"
    by (simp add: random_below_def demo_env_def)
  then show ?thesis
    using post_users_truthy [of "JsObj [(''name'', JsStr ''Hanako''), (''email'', JsStr ''h@example.com'')]" "demo_env (1/4)"]
      post_users_truthy [of "JsObj [(''name'', JsStr ''Hanako'')]" "demo_env (1/4)"]
    by (simp add: field_def)
qed

text \<open>
  C1 as stated fails: in the two bodies below \<^verbatim>\<open>name\<close> is present and not empty (it is
  \<^verbatim>\<open>false\<close>, then \<^verbatim>\<open>0\<close>) and so is \<^verbatim>\<open>email\<close>, and the answer is 400, not 201.
\<close>

theorem post_users_present_but_falsy:
  "\<not> missing (field (JsObj [(''name'', JsBool False), (''email'', JsStr ''a@example.com'')]) ''name'')
   \<and> \<not> missing (field (JsObj [(''name'', JsBool False), (''email'', JsStr ''a@example.com'')]) ''email'')
   \<and> res_status (app (demo_env (1/4)) (PostUsers (JsObj [(''name'', JsBool False), (''email'', JsStr ''a@example.com'')]))) = 400
   \<and> \<not> missing (field (JsObj [(''name'', JsNum 0), (''email'', JsStr ''a@example.com'')]) ''name'')
   \<and> res_status (app (demo_env (1/4)) (PostUsers (JsObj [(''name'', JsNum 0), (''email'', JsStr ''a@example.com'')]))) = 400"
  by (simp add: missing_def field_def post_users_def catch_def status_json_def)

text \<open>
  C2, as the code has it. \<^verbatim>\<open>POST /api/auth/login\<close> first requires both credentials:
  for every request body, a falsy \<^verbatim>\<open>username\<close> or \<^verbatim>\<open>password\<close> gives 400; with a
  truthy \<^verbatim>\<open>username\<close>, the password \<^verbatim>\<open>"wrong"\<close> gives 401, and every other truthy
  password gives 200 with \<^verbatim>\<open>data.token\<close> the string that \<^verbatim>\<open>jwt.sign\<close> returns for the
  claims \<^verbatim>\<open>{ userId, username }\<close>, the server's secret and the expiry \<^verbatim>\<open>1h\<close>, which is
  not empty when \<^verbatim>\<open>jwt.sign\<close> returns a string that is not empty.
\<close>

theorem post_login_statuses:
  assumes "body \<noteq> JsUndefined" and "body \<noteq> JsNull"
  shows "(\<not> truthy (field body ''username'') \<or> \<not> truthy (field body ''password'') \<longrightarrow>
            res_status (app E (PostLogin body)) = 400
          \<and> at_path (res_body (app E (PostLogin body))) [''success''] = Some (JsBool False))
       \<and> (truthy (field body ''username'') \<and> field body ''password'' = JsStr ''wrong'' \<longrightarrow>
            res_status (app E (PostLogin body)) = 401
          \<and> at_path (res_body (app E (PostLogin body))) [''success''] = Some (JsBool False))
       \<and> (truthy (field body ''username'') \<and> truthy (field body ''password'')
            \<and> field body ''password'' \<noteq> JsStr ''wrong'' \<longrightarrow>
            res_status (app E (PostLogin body)) = 200
          \<and> at_path (res_body (app E (PostLogin body))) [''data'', ''token'']
              = Some (JsStr (env_sign E (login_payload E (field body ''username'')) JWT_SECRET ''1h''))
          \<and> (env_sign E (login_payload E (field body ''username'')) JWT_SECRET ''1h'' \<noteq> [] \<longrightarrow>
               (\<exists>t. at_path (res_body (app E (PostLogin body))) [''data'', ''token''] = Some (JsStr t)
                    \<and> t \<noteq> [])))"
  using assms
  by (auto simp: post_login_def catch_def get_prop_field status_json_def json_def Let_def
      login_payload_def)

theorem post_login_statuses_witness:
  "res_status (app (demo_env (1/4)) (PostLogin (JsObj [(''username'', JsStr ''alice''), (''password'', JsStr ''wrong'')]))) = 401
   \<and> res_status (app (demo_env (1/4)) (PostLogin (JsObj [(''username'', JsStr ''alice''), (''password'', JsStr ''pw'')]))) = 200
   \<and> at_path (res_body (app (demo_env (1/4)) (PostLogin (JsObj [(''username'', JsStr ''alice''), (''password'', JsStr ''pw'')]))))
        [''data'', ''token''] = Some (JsStr ''k6-test-secret-key.alice'')
   \<and> res_status (app (demo_env (1/4)) (PostLogin (JsObj [(''username'', JsStr ''alice'')]))) = 400"
  using post_login_statuses [of "JsObj [(''username'', JsStr ''alice''), (''password'', JsStr ''wrong'')]" "demo_env (1/4)"]
    post_login_statuses [of "JsObj [(''username'', JsStr ''alice''), (''password'', JsStr ''pw'')]" "demo_env (1/4)"]
    post_login_statuses [of "JsObj [(''username'', JsStr ''alice'')]" "demo_env (1/4)"]
  by (simp add: field_def login_payload_def demo_env_def demo_sign_def JWT_SECRET_def)

text \<open>
  C2 as stated fails: a body with the password \<^verbatim>\<open>"wrong"\<close> and no \<^verbatim>\<open>username\<close> is
  answered 400, not 401, and a body with another password and no \<^verbatim>\<open>username\<close> is
  answered 400, not 200.
\<close>

theorem login_wrong_password_without_username:
  "field (JsObj [(''password'', JsStr ''wrong'')]) ''password'' = JsStr ''wrong''
   \<and> res_status (app (demo_env (1/4)) (PostLogin (JsObj [(''password'', JsStr ''wrong'')]))) = 400
   \<and> truthy (field (JsObj [(''password'', JsStr ''pw'')]) ''password'')
   \<and> field (JsObj [(''password'', JsStr ''pw'')]) ''password'' \<noteq> JsStr ''wrong''
   \<and> res_status (app (demo_env (1/4)) (PostLogin (JsObj [(''password'', JsStr ''pw'')]))) = 400"
  by (simp add: field_def post_login_def catch_def status_json_def)

text \<open>
  C3. For every body that \<^verbatim>\<open>POST /api/auth/login\<close> accepts (truthy \<^verbatim>\<open>username\<close>, truthy
  \<^verbatim>\<open>password\<close> other than \<^verbatim>\<open>"wrong"\<close>), the response carries a token, and
  \<^verbatim>\<open>GET /api/auth/me\<close> with the header \<^verbatim>\<open>Authorization: Bearer <token>\<close> (as
  \<^verbatim>\<open>getAuthHeaders\<close> builds it) answers 200 with \<^verbatim>\<open>data.username\<close> the original
  \<^verbatim>\<open>username\<close>, given that \<^verbatim>\<open>jsonwebtoken\<close> verifies what it signed
  (\<open>jwt_round_trip\<close>). A request with no \<^verbatim>\<open>Authorization\<close> header, with a header that
  does not start with \<^verbatim>\<open>Bearer \<close> (the empty header included), or with a token that
  \<^verbatim>\<open>jwt.verify\<close> rejects, is answered 401.
\<close>

theorem login_me_round_trip:
  "(body \<noteq> JsUndefined \<and> body \<noteq> JsNull
     \<and> truthy (field body ''username'') \<and> truthy (field body ''password'')
     \<and> field body ''password'' \<noteq> JsStr ''wrong''
     \<and> jwt_round_trip E E' (field body ''username'') \<longrightarrow>
     (\<exists>token. at_path (res_body (app E (PostLogin body))) [''data'', ''token''] = Some (JsStr token)
        \<and> res_status (app E' (GetMe (map_of (getAuthHeaders token) ''Authorization''))) = 200
        \<and> at_path (res_body (app E' (GetMe (map_of (getAuthHeaders token) ''Authorization''))))
             [''data'', ''username''] = Some (field body ''username'')))
   \<and> res_status (app E' (GetMe None)) = 401
   \<and> (\<not> starts_with h ''Bearer '' \<longrightarrow> res_status (app E' (GetMe (Some h))) = 401)
   \<and> (env_verify E' (drop 7 h) JWT_SECRET = None \<longrightarrow> res_status (app E' (GetMe (Some h))) = 401)"
proof -
  have rt: "\<exists>token. at_path (res_body (app E (PostLogin body))) [''data'', ''token''] = Some (JsStr token)
        \<and> res_status (app E' (GetMe (map_of (getAuthHeaders token) ''Authorization''))) = 200
        \<and> at_path (res_body (app E' (GetMe (map_of (getAuthHeaders token) ''Authorization''))))
             [''data'', ''username''] = Some (field body ''username'')"
    if b: "body \<noteq> JsUndefined" "body \<noteq> JsNull"
      and acc: "truthy (field body ''username'')" "truthy (field body ''password'')"
        "field body ''password'' \<noteq> JsStr ''wrong''"
      and lib: "jwt_round_trip E E' (field body ''username'')"
  proof -
    let ?t = "env_sign E (login_payload E (field body ''username'')) JWT_SECRET ''1h''"
    have issued: "at_path (res_body (app E (PostLogin body))) [''data'', ''token''] = Some (JsStr ?t)"
      using b acc
      by (simp add: post_login_def catch_def get_prop_field status_json_def json_def Let_def)
    from lib obtain decoded where d: "env_verify E' ?t JWT_SECRET = Some decoded"
      "own_prop decoded ''username'' = Some (field body ''username'')"
      unfolding jwt_round_trip_def by (auto split: option.splits)
    have "res_status (get_me E' (Some (''Bearer '' @ ?t))) = 200
       \<and> at_path (res_body (get_me E' (Some (''Bearer '' @ ?t)))) [''data'', ''username'']
           = Some (field body ''username'')"
      using d by (rule get_me_verified)
    then show ?thesis using issued by (simp add: getAuthHeaders_def)
  qed
  have none: "res_status (app E' (GetMe None)) = 401"
    by (simp add: get_me_def status_json_def)
  have nob: "res_status (app E' (GetMe (Some h))) = 401" if "\<not> starts_with h ''Bearer ''"
    using that by (simp add: get_me_def status_json_def)
  have bad: "res_status (app E' (GetMe (Some h))) = 401" if "env_verify E' (drop 7 h) JWT_SECRET = None"
    using that by (simp add: get_me_def status_json_def Let_def)
  show ?thesis using rt none nob bad by blast
qed

theorem login_me_round_trip_witness:
  "(\<exists>token. at_path (res_body (app (demo_env (1/4))
        (PostLogin (JsObj [(''username'', JsStr ''alice''), (''password'', JsStr ''pw'')]))))
        [''data'', ''token''] = Some (JsStr token)
      \<and> res_status (app (demo_env (3/4)) (GetMe (map_of (getAuthHeaders token) ''Authorization''))) = 200
      \<and> at_path (res_body (app (demo_env (3/4)) (GetMe (map_of (getAuthHeaders token) ''Authorization''))))
           [''data'', ''username''] = Some (JsStr ''alice''))
   \<and> res_status (app (demo_env (3/4)) (GetMe (Some ''Basic abc''))) = 401
   \<and> res_status (app (demo_env (3/4)) (GetMe (Some ''Bearer forged''))) = 401"
proof -
  have lib: "jwt_round_trip (demo_env (1/4)) (demo_env (3/4)) (JsStr ''alice'')"
    by (rule demo_round_trip)
  have nob: "\<not> starts_with ''Basic abc'' ''Bearer ''"
    by (simp add: starts_with_def)
  have bad: "env_verify (demo_env (3/4)) (drop 7 ''Bearer forged'') JWT_SECRET = None"
    by (simp add: demo_env_def demo_verify_def starts_with_def JWT_SECRET_def)
  show ?thesis
    using lib nob bad
      login_me_round_trip [of "JsObj [(''username'', JsStr ''alice''), (''password'', JsStr ''pw'')]"
        "demo_env (1/4)" "demo_env (3/4)" "''Basic abc''"]
      login_me_round_trip [of "JsObj [(''username'', JsStr ''alice''), (''password'', JsStr ''pw'')]"
        "demo_env (1/4)" "demo_env (3/4)" "''Bearer forged''"]
    by (simp add: field_def)
qed

text \<open>
  C5, as the code has it. \<^verbatim>\<open>GET /api/large-payload?size=N\<close> reads
  \<^verbatim>\<open>parseInt(size) || 100\<close>: for every \<open>N\<close> with \<open>0 < N < 2^32\<close> given in decimal the
  answer is 200 with exactly \<open>N\<close> items in \<^verbatim>\<open>data\<close> and \<^verbatim>\<open>count\<close> equal to \<open>N\<close>; for
  \<open>N = 0\<close> the default applies and the answer has 100 items and \<^verbatim>\<open>count\<close> 100.
\<close>

theorem large_payload_count:
  "(0 < N \<and> N < 2 ^ 32 \<longrightarrow>
      res_status (app E (GetLargePayload (Some (QStr (show_nat N))))) = 200
      \<and> (\<exists>items. at_path (res_body (app E (GetLargePayload (Some (QStr (show_nat N)))))) [''data'']
              = Some (JsArr items) \<and> length items = N)
      \<and> at_path (res_body (app E (GetLargePayload (Some (QStr (show_nat N)))))) [''count'']
          = Some (JsNum (of_nat N)))
   \<and> res_status (app E (GetLargePayload (Some (QStr (show_nat 0))))) = 200
   \<and> (\<exists>items. at_path (res_body (app E (GetLargePayload (Some (QStr (show_nat 0)))))) [''data'']
           = Some (JsArr items) \<and> length items = 100)
   \<and> at_path (res_body (app E (GetLargePayload (Some (QStr (show_nat 0)))))) [''count'']
       = Some (JsNum 100)"
proof -
  have pos: "res_status (app E (GetLargePayload (Some (QStr (show_nat N))))) = 200
      \<and> (\<exists>items. at_path (res_body (app E (GetLargePayload (Some (QStr (show_nat N)))))) [''data'']
              = Some (JsArr items) \<and> length items = N)
      \<and> at_path (res_body (app E (GetLargePayload (Some (QStr (show_nat N)))))) [''count'']
          = Some (JsNum (of_nat N))" if "0 < N" "N < 2 ^ 32"
  proof (rule large_payload_items [where p = "Some (Fin (int N))"])
    have "N \<le> 2 ^ 53" using that by simp
    then show "parseInt_js (case Some (QStr (show_nat N)) of None \<Rightarrow> ''undefined'' | Some v \<Rightarrow> q_to_string v)
        = Some (Fin (int N))"
      by (simp add: parseInt_show_nat)
    show "or_num (Some (Fin (int N))) 100 = Fin (int N)" using that by (simp add: or_num_def)
    show "N < 2 ^ 32" using that by simp
  qed
  have zero: "res_status (app E (GetLargePayload (Some (QStr (show_nat 0))))) = 200
      \<and> (\<exists>items. at_path (res_body (app E (GetLargePayload (Some (QStr (show_nat 0)))))) [''data'']
              = Some (JsArr items) \<and> length items = 100)
      \<and> at_path (res_body (app E (GetLargePayload (Some (QStr (show_nat 0)))))) [''count'']
          = Some (JsNum (of_nat 100))"
  proof (rule large_payload_items [where p = "Some (Fin 0)"])
    show "parseInt_js (case Some (QStr (show_nat 0)) of None \<Rightarrow> ''undefined'' | Some v \<Rightarrow> q_to_string v)
        = Some (Fin 0)"
      using parseInt_show_nat [of 0] by simp
    show "or_num (Some (Fin 0)) 100 = Fin (int 100)" by (simp add: or_num_def)
    show "(100::nat) < 2 ^ 32" by simp
  qed
  show ?thesis using pos zero by simp
qed

theorem large_payload_count_witness:
  "res_status (app (demo_env 0) (GetLargePayload (Some (QStr (show_nat 3))))) = 200
   \<and> (\<exists>items. at_path (res_body (app (demo_env 0) (GetLargePayload (Some (QStr (show_nat 3)))))) [''data'']
           = Some (JsArr items) \<and> length items = 3)
   \<and> at_path (res_body (app (demo_env 0) (GetLargePayload (Some (QStr (show_nat 3)))))) [''count'']
       = Some (JsNum 3)"
  using large_payload_count [of 3 "demo_env 0"] by simp

text \<open>
  C5 as stated fails at the edge case it names: \<^verbatim>\<open>size=0\<close> parses to 0, which is
  falsy, and the response counts 100 items, not 0.
\<close>

theorem large_payload_size_zero:
  "parseInt_js ''0'' = Some (Fin 0)
   \<and> at_path (res_body (app (demo_env 0) (GetLargePayload (Some (QStr ''0''))))) [''count'']
       = Some (JsNum 100)
   \<and> at_path (res_body (app (demo_env 0) (GetLargePayload (Some (QStr ''0''))))) [''count'']
       \<noteq> Some (JsNum 0)"
proof -
  have p: "parseInt_js ''0'' = Some (Fin 0)" by (simp add: eval_parse to_jsint_safe)
  have "at_path (res_body (app (demo_env 0) (GetLargePayload (Some (QStr ''0''))))) [''count'']
       = Some (JsNum 100)"
    by (simp add: p get_large_payload_def or_num_def catch_def json_def status_json_def)
  with p show ?thesis by simp
qed

text \<open>
  C10, as the code has it. \<^verbatim>\<open>login\<close> is total and never throws: \<^verbatim>\<open>JSON.parse\<close> and the
  property reads are inside its \<^verbatim>\<open>try\<close> block, and every path ends in a value. For
  every response whose parsed body has a \<^verbatim>\<open>data.token\<close> that is a string, or has none,
  \<^verbatim>\<open>login\<close> returns either a token string (not empty) or null; it returns null exactly
  when the status is not 200, the body is not valid JSON, or the parsed body has no
  \<^verbatim>\<open>data.token\<close> or an empty one; and otherwise it returns that token. (What it returns
  for a \<^verbatim>\<open>data.token\<close> that is not a string is left open.)
\<close>

theorem login_null_or_token:
  "(\<forall>body. parsed_body K (login_response K baseUrl username password) = Some body \<longrightarrow>
        token_field body = JsUndefined \<or> (\<exists>s. token_field body = JsStr s)) \<longrightarrow>
     (login K baseUrl username password = JsNull
        \<or> (\<exists>s. login K baseUrl username password = JsStr s \<and> s \<noteq> []))
   \<and> (login K baseUrl username password = JsNull \<longleftrightarrow>
        http_status (login_response K baseUrl username password) \<noteq> 200
        \<or> parsed_body K (login_response K baseUrl username password) = None
        \<or> (\<exists>body. parsed_body K (login_response K baseUrl username password) = Some body
              \<and> (token_field body = JsUndefined \<or> token_field body = JsStr [])))
   \<and> (\<forall>body s. http_status (login_response K baseUrl username password) = 200
        \<and> parsed_body K (login_response K baseUrl username password) = Some body
        \<and> token_field body = JsStr s \<and> s \<noteq> [] \<longrightarrow>
        login K baseUrl username password = JsStr s)"
proof
  assume typed: "\<forall>body. parsed_body K (login_response K baseUrl username password) = Some body \<longrightarrow>
        token_field body = JsUndefined \<or> (\<exists>s. token_field body = JsStr s)"
  show "(login K baseUrl username password = JsNull
        \<or> (\<exists>s. login K baseUrl username password = JsStr s \<and> s \<noteq> []))
   \<and> (login K baseUrl username password = JsNull \<longleftrightarrow>
        http_status (login_response K baseUrl username password) \<noteq> 200
        \<or> parsed_body K (login_response K baseUrl username password) = None
        \<or> (\<exists>body. parsed_body K (login_response K baseUrl username password) = Some body
              \<and> (token_field body = JsUndefined \<or> token_field body = JsStr [])))
   \<and> (\<forall>body s. http_status (login_response K baseUrl username password) = 200
        \<and> parsed_body K (login_response K baseUrl username password) = Some body
        \<and> token_field body = JsStr s \<and> s \<noteq> [] \<longrightarrow>
        login K baseUrl username password = JsStr s)"
  proof (cases "parsed_body K (login_response K baseUrl username password)")
    case None
    then show ?thesis unfolding login_unfold Let_def by simp
  next
    case (Some body)
    with typed have "token_field body = JsUndefined \<or> (\<exists>s. token_field body = JsStr s)" by simp
    then show ?thesis
      unfolding login_unfold Let_def using Some by auto
  qed
qed

theorem login_null_or_token_witness:
  "login (demo_k6 200 (Some (JsObj [(''data'', JsObj [(''token'', JsStr ''abc.def.ghi'')])])))
      ''http://localhost:3000'' ''alice'' ''pw'' = JsStr ''abc.def.ghi''
   \<and> login (demo_k6 401 (Some (JsObj [(''success'', JsBool False)])))
      ''http://localhost:3000'' ''alice'' ''wrong'' = JsNull"
  using login_null_or_token
      [of "demo_k6 200 (Some (JsObj [(''data'', JsObj [(''token'', JsStr ''abc.def.ghi'')])]))"
        "''http://localhost:3000''" "''alice''" "''pw''"]
    login_null_or_token
      [of "demo_k6 401 (Some (JsObj [(''success'', JsBool False)]))"
        "''http://localhost:3000''" "''alice''" "''wrong''"]
  by (simp add: login_response_def parsed_body_def token_field_def demo_k6_def)

text \<open>
  C10 as stated fails: a response with status 200 and valid JSON whose \<^verbatim>\<open>data.token\<close> is
  the empty string does not lack the field, and \<^verbatim>\<open>login\<close> returns null.
\<close>

theorem login_empty_token_is_null:
  "at_path (JsObj [(''data'', JsObj [(''token'', JsStr [])])]) [''data'', ''token''] = Some (JsStr [])
   \<and> http_status (login_response (demo_k6 200 (Some (JsObj [(''data'', JsObj [(''token'', JsStr [])])])))
        ''http://localhost:3000'' ''alice'' ''pw'') = 200
   \<and> login (demo_k6 200 (Some (JsObj [(''data'', JsObj [(''token'', JsStr [])])])))
      ''http://localhost:3000'' ''alice'' ''pw'' = JsNull"
  by (simp add: login_def login_response_def demo_k6_def data_token_def js_or_def)

end
